theory Spec2Isabelle
  imports Complex_Main "HOL-Library.Sublist"
begin

section \<open>JavaScript strings\<close>

text \<open>
  A JavaScript string is a sequence of UTF-16 code units: \<open>length\<close> counts code units,
  \<open>includes\<close> compares code units, \<open>substring\<close> cuts between code units. A code
  unit is an integer from 0 to 65535; no operation of this program computes one outside
  that range. ASCII literals of the source are written with \<open>js\<close>; a character
  outside ASCII is written as its code units (an emoji beyond the basic plane is a
  surrogate pair).
\<close>

type_synonym jsstring = "int list"

definition js :: "string \<Rightarrow> jsstring" where
  "js s = map of_char s"

text \<open>The emoji of the configuration, as UTF-16.\<close>

definition emoji_dog :: jsstring where \<comment> \<open>U+1F415\<close>
  "emoji_dog = [0xD83D, 0xDC15]"

definition emoji_dogface :: jsstring where \<comment> \<open>U+1F436\<close>
  "emoji_dogface = [0xD83D, 0xDC36]"

definition emoji_paws :: jsstring where \<comment> \<open>U+1F43E\<close>
  "emoji_paws = [0xD83D, 0xDC3E]"

definition emoji_chipmunk :: jsstring where \<comment> \<open>U+1F43F U+FE0F\<close>
  "emoji_chipmunk = [0xD83D, 0xDC3F, 0xFE0F]"

definition emoji_catface :: jsstring where \<comment> \<open>U+1F431\<close>
  "emoji_catface = [0xD83D, 0xDC31]"

definition emoji_tennis :: jsstring where \<comment> \<open>U+1F3BE\<close>
  "emoji_tennis = [0xD83C, 0xDFBE]"

text \<open>
  The code points of a string: a high surrogate followed by a low one is one code point,
  any other code unit is its own. Case conversion and a regular expression with the
  \<open>u\<close> flag both walk over them.
\<close>

fun codePoints :: "jsstring \<Rightarrow> int list" where
  "codePoints [] = []"
| "codePoints [c] = [c]"
| "codePoints (h # l # cs) =
     (if 0xD800 \<le> h \<and> h \<le> 0xDBFF \<and> 0xDC00 \<le> l \<and> l \<le> 0xDFFF
      then (0x10000 + (h - 0xD800) * 0x400 + (l - 0xDC00)) # codePoints cs
      else h # codePoints (l # cs))"

definition encodeCodePoint :: "int \<Rightarrow> jsstring" where
  "encodeCodePoint cp =
     (if 0x10000 \<le> cp
      then [0xD800 + (cp - 0x10000) div 0x400, 0xDC00 + (cp - 0x10000) mod 0x400]
      else [cp])"

text \<open>
  \<open>String.prototype.toLowerCase\<close> is the lower-case conversion of the Unicode standard,
  without the rules of particular languages. The tables are those of Unicode 14.0.
  \<open>lowercaseRanges\<close> holds the simple lower-case mappings as
  \<open>(lo, hi, step, offset)\<close>: every \<open>step\<close>-th code point from \<open>lo\<close> to
  \<open>hi\<close> goes to itself plus \<open>offset\<close>. The ranges are in ascending order and do not
  overlap.
\<close>

definition lowercaseRanges :: "(int \<times> int \<times> int \<times> int) list" where
  "lowercaseRanges =
     [(0x41, 0x5A, 0x1, 0x20), (0xC0, 0xD6, 0x1, 0x20), (0xD8, 0xDE, 0x1, 0x20),
      (0x100, 0x12E, 0x2, 0x1), (0x132, 0x136, 0x2, 0x1), (0x139, 0x147, 0x2, 0x1),
      (0x14A, 0x176, 0x2, 0x1), (0x178, 0x178, 0x1, - 0x79), (0x179, 0x17D, 0x2, 0x1),
      (0x181, 0x181, 0x1, 0xD2), (0x182, 0x184, 0x2, 0x1), (0x186, 0x186, 0x1, 0xCE),
      (0x187, 0x187, 0x1, 0x1), (0x189, 0x18A, 0x1, 0xCD), (0x18B, 0x18B, 0x1, 0x1),
      (0x18E, 0x18E, 0x1, 0x4F), (0x18F, 0x18F, 0x1, 0xCA), (0x190, 0x190, 0x1, 0xCB),
      (0x191, 0x191, 0x1, 0x1), (0x193, 0x193, 0x1, 0xCD), (0x194, 0x194, 0x1, 0xCF),
      (0x196, 0x196, 0x1, 0xD3), (0x197, 0x197, 0x1, 0xD1), (0x198, 0x198, 0x1, 0x1),
      (0x19C, 0x19C, 0x1, 0xD3), (0x19D, 0x19D, 0x1, 0xD5), (0x19F, 0x19F, 0x1, 0xD6),
      (0x1A0, 0x1A4, 0x2, 0x1), (0x1A6, 0x1A6, 0x1, 0xDA), (0x1A7, 0x1A7, 0x1, 0x1),
      (0x1A9, 0x1A9, 0x1, 0xDA), (0x1AC, 0x1AC, 0x1, 0x1), (0x1AE, 0x1AE, 0x1, 0xDA),
      (0x1AF, 0x1AF, 0x1, 0x1), (0x1B1, 0x1B2, 0x1, 0xD9), (0x1B3, 0x1B5, 0x2, 0x1),
      (0x1B7, 0x1B7, 0x1, 0xDB), (0x1B8, 0x1B8, 0x1, 0x1), (0x1BC, 0x1BC, 0x1, 0x1),
      (0x1C4, 0x1C4, 0x1, 0x2), (0x1C5, 0x1C5, 0x1, 0x1), (0x1C7, 0x1C7, 0x1, 0x2),
      (0x1C8, 0x1C8, 0x1, 0x1), (0x1CA, 0x1CA, 0x1, 0x2), (0x1CB, 0x1DB, 0x2, 0x1),
      (0x1DE, 0x1EE, 0x2, 0x1), (0x1F1, 0x1F1, 0x1, 0x2), (0x1F2, 0x1F4, 0x2, 0x1),
      (0x1F6, 0x1F6, 0x1, - 0x61), (0x1F7, 0x1F7, 0x1, - 0x38), (0x1F8, 0x21E, 0x2, 0x1),
      (0x220, 0x220, 0x1, - 0x82), (0x222, 0x232, 0x2, 0x1), (0x23A, 0x23A, 0x1, 0x2A2B),
      (0x23B, 0x23B, 0x1, 0x1), (0x23D, 0x23D, 0x1, - 0xA3), (0x23E, 0x23E, 0x1, 0x2A28),
      (0x241, 0x241, 0x1, 0x1), (0x243, 0x243, 0x1, - 0xC3), (0x244, 0x244, 0x1, 0x45),
      (0x245, 0x245, 0x1, 0x47), (0x246, 0x24E, 0x2, 0x1), (0x370, 0x372, 0x2, 0x1),
      (0x376, 0x376, 0x1, 0x1), (0x37F, 0x37F, 0x1, 0x74), (0x386, 0x386, 0x1, 0x26),
      (0x388, 0x38A, 0x1, 0x25), (0x38C, 0x38C, 0x1, 0x40), (0x38E, 0x38F, 0x1, 0x3F),
      (0x391, 0x3A1, 0x1, 0x20), (0x3A3, 0x3AB, 0x1, 0x20), (0x3CF, 0x3CF, 0x1, 0x8),
      (0x3D8, 0x3EE, 0x2, 0x1), (0x3F4, 0x3F4, 0x1, - 0x3C), (0x3F7, 0x3F7, 0x1, 0x1),
      (0x3F9, 0x3F9, 0x1, - 0x7), (0x3FA, 0x3FA, 0x1, 0x1), (0x3FD, 0x3FF, 0x1, - 0x82),
      (0x400, 0x40F, 0x1, 0x50), (0x410, 0x42F, 0x1, 0x20), (0x460, 0x480, 0x2, 0x1),
      (0x48A, 0x4BE, 0x2, 0x1), (0x4C0, 0x4C0, 0x1, 0xF), (0x4C1, 0x4CD, 0x2, 0x1),
      (0x4D0, 0x52E, 0x2, 0x1), (0x531, 0x556, 0x1, 0x30), (0x10A0, 0x10C5, 0x1, 0x1C60),
      (0x10C7, 0x10C7, 0x1, 0x1C60), (0x10CD, 0x10CD, 0x1, 0x1C60), (0x13A0, 0x13EF, 0x1, 0x97D0),
      (0x13F0, 0x13F5, 0x1, 0x8), (0x1C90, 0x1CBA, 0x1, - 0xBC0), (0x1CBD, 0x1CBF, 0x1, - 0xBC0),
      (0x1E00, 0x1E94, 0x2, 0x1), (0x1E9E, 0x1E9E, 0x1, - 0x1DBF), (0x1EA0, 0x1EFE, 0x2, 0x1),
      (0x1F08, 0x1F0F, 0x1, - 0x8), (0x1F18, 0x1F1D, 0x1, - 0x8), (0x1F28, 0x1F2F, 0x1, - 0x8),
      (0x1F38, 0x1F3F, 0x1, - 0x8), (0x1F48, 0x1F4D, 0x1, - 0x8), (0x1F59, 0x1F5F, 0x2, - 0x8),
      (0x1F68, 0x1F6F, 0x1, - 0x8), (0x1F88, 0x1F8F, 0x1, - 0x8), (0x1F98, 0x1F9F, 0x1, - 0x8),
      (0x1FA8, 0x1FAF, 0x1, - 0x8), (0x1FB8, 0x1FB9, 0x1, - 0x8), (0x1FBA, 0x1FBB, 0x1, - 0x4A),
      (0x1FBC, 0x1FBC, 0x1, - 0x9), (0x1FC8, 0x1FCB, 0x1, - 0x56), (0x1FCC, 0x1FCC, 0x1, - 0x9),
      (0x1FD8, 0x1FD9, 0x1, - 0x8), (0x1FDA, 0x1FDB, 0x1, - 0x64), (0x1FE8, 0x1FE9, 0x1, - 0x8),
      (0x1FEA, 0x1FEB, 0x1, - 0x70), (0x1FEC, 0x1FEC, 0x1, - 0x7), (0x1FF8, 0x1FF9, 0x1, - 0x80),
      (0x1FFA, 0x1FFB, 0x1, - 0x7E), (0x1FFC, 0x1FFC, 0x1, - 0x9), (0x2126, 0x2126, 0x1, - 0x1D5D),
      (0x212A, 0x212A, 0x1, - 0x20BF), (0x212B, 0x212B, 0x1, - 0x2046), (0x2132, 0x2132, 0x1, 0x1C),
      (0x2160, 0x216F, 0x1, 0x10), (0x2183, 0x2183, 0x1, 0x1), (0x24B6, 0x24CF, 0x1, 0x1A),
      (0x2C00, 0x2C2F, 0x1, 0x30), (0x2C60, 0x2C60, 0x1, 0x1), (0x2C62, 0x2C62, 0x1, - 0x29F7),
      (0x2C63, 0x2C63, 0x1, - 0xEE6), (0x2C64, 0x2C64, 0x1, - 0x29E7), (0x2C67, 0x2C6B, 0x2, 0x1),
      (0x2C6D, 0x2C6D, 0x1, - 0x2A1C), (0x2C6E, 0x2C6E, 0x1, - 0x29FD), (0x2C6F, 0x2C6F, 0x1, - 0x2A1F),
      (0x2C70, 0x2C70, 0x1, - 0x2A1E), (0x2C72, 0x2C72, 0x1, 0x1), (0x2C75, 0x2C75, 0x1, 0x1),
      (0x2C7E, 0x2C7F, 0x1, - 0x2A3F), (0x2C80, 0x2CE2, 0x2, 0x1), (0x2CEB, 0x2CED, 0x2, 0x1),
      (0x2CF2, 0x2CF2, 0x1, 0x1), (0xA640, 0xA66C, 0x2, 0x1), (0xA680, 0xA69A, 0x2, 0x1),
      (0xA722, 0xA72E, 0x2, 0x1), (0xA732, 0xA76E, 0x2, 0x1), (0xA779, 0xA77B, 0x2, 0x1),
      (0xA77D, 0xA77D, 0x1, - 0x8A04), (0xA77E, 0xA786, 0x2, 0x1), (0xA78B, 0xA78B, 0x1, 0x1),
      (0xA78D, 0xA78D, 0x1, - 0xA528), (0xA790, 0xA792, 0x2, 0x1), (0xA796, 0xA7A8, 0x2, 0x1),
      (0xA7AA, 0xA7AA, 0x1, - 0xA544), (0xA7AB, 0xA7AB, 0x1, - 0xA54F), (0xA7AC, 0xA7AC, 0x1, - 0xA54B),
      (0xA7AD, 0xA7AD, 0x1, - 0xA541), (0xA7AE, 0xA7AE, 0x1, - 0xA544), (0xA7B0, 0xA7B0, 0x1, - 0xA512),
      (0xA7B1, 0xA7B1, 0x1, - 0xA52A), (0xA7B2, 0xA7B2, 0x1, - 0xA515), (0xA7B3, 0xA7B3, 0x1, 0x3A0),
      (0xA7B4, 0xA7C2, 0x2, 0x1), (0xA7C4, 0xA7C4, 0x1, - 0x30), (0xA7C5, 0xA7C5, 0x1, - 0xA543),
      (0xA7C6, 0xA7C6, 0x1, - 0x8A38), (0xA7C7, 0xA7C9, 0x2, 0x1), (0xA7D0, 0xA7D0, 0x1, 0x1),
      (0xA7D6, 0xA7D8, 0x2, 0x1), (0xA7F5, 0xA7F5, 0x1, 0x1), (0xFF21, 0xFF3A, 0x1, 0x20),
      (0x10400, 0x10427, 0x1, 0x28), (0x104B0, 0x104D3, 0x1, 0x28), (0x10570, 0x1057A, 0x1, 0x27),
      (0x1057C, 0x1058A, 0x1, 0x27), (0x1058C, 0x10592, 0x1, 0x27), (0x10594, 0x10595, 0x1, 0x27),
      (0x10C80, 0x10CB2, 0x1, 0x40), (0x118A0, 0x118BF, 0x1, 0x20), (0x16E40, 0x16E5F, 0x1, 0x20),
      (0x1E900, 0x1E921, 0x1, 0x22)]"

fun lookupLower :: "int \<Rightarrow> (int \<times> int \<times> int \<times> int) list \<Rightarrow> int option" where
  "lookupLower cp [] = None"
| "lookupLower cp ((lo, hi, step, offset) # ranges) =
     (if cp < lo then None
      else if cp \<le> hi \<and> (cp - lo) mod step = 0 then Some (cp + offset)
      else lookupLower cp ranges)"

text \<open>
  The one unconditional special mapping: U+0130, the capital I with a dot above, goes to
  \<open>i\<close> followed by the combining dot above, two code units.
\<close>

definition lowerCodePoint :: "int \<Rightarrow> int list" where
  "lowerCodePoint cp =
     (if cp = 0x130 then [0x69, 0x307]
      else case lookupLower cp lowercaseRanges of Some l \<Rightarrow> [l] | None \<Rightarrow> [cp])"

text \<open>
  The capital sigma U+03A3 goes to the final sigma U+03C2 when a cased letter precedes it
  and none follows, case-ignorable code points in between not counting, and to U+03C3
  otherwise. \<open>caseIgnorableRanges\<close> is the property Case_Ignorable;
  \<open>casedRanges\<close> is the property Cased without the code points that are also
  case-ignorable, which the scan passes over before it asks for a cased letter.
\<close>

definition caseIgnorableRanges :: "(int \<times> int) list" where
  "caseIgnorableRanges =
     [(0x27, 0x27), (0x2E, 0x2E), (0x3A, 0x3A), (0x5E, 0x5E), (0x60, 0x60),
      (0xA8, 0xA8), (0xAD, 0xAD), (0xAF, 0xAF), (0xB4, 0xB4), (0xB7, 0xB8),
      (0x2B0, 0x36F), (0x374, 0x375), (0x37A, 0x37A), (0x384, 0x385), (0x387, 0x387),
      (0x483, 0x489), (0x559, 0x559), (0x55F, 0x55F), (0x591, 0x5BD), (0x5BF, 0x5BF),
      (0x5C1, 0x5C2), (0x5C4, 0x5C5), (0x5C7, 0x5C7), (0x5F4, 0x5F4), (0x600, 0x605),
      (0x610, 0x61A), (0x61C, 0x61C), (0x640, 0x640), (0x64B, 0x65F), (0x670, 0x670),
      (0x6D6, 0x6DD), (0x6DF, 0x6E8), (0x6EA, 0x6ED), (0x70F, 0x70F), (0x711, 0x711),
      (0x730, 0x74A), (0x7A6, 0x7B0), (0x7EB, 0x7F5), (0x7FA, 0x7FA), (0x7FD, 0x7FD),
      (0x816, 0x82D), (0x859, 0x85B), (0x888, 0x888), (0x890, 0x891), (0x898, 0x89F),
      (0x8C9, 0x902), (0x93A, 0x93A), (0x93C, 0x93C), (0x941, 0x948), (0x94D, 0x94D),
      (0x951, 0x957), (0x962, 0x963), (0x971, 0x971), (0x981, 0x981), (0x9BC, 0x9BC),
      (0x9C1, 0x9C4), (0x9CD, 0x9CD), (0x9E2, 0x9E3), (0x9FE, 0x9FE), (0xA01, 0xA02),
      (0xA3C, 0xA3C), (0xA41, 0xA42), (0xA47, 0xA48), (0xA4B, 0xA4D), (0xA51, 0xA51),
      (0xA70, 0xA71), (0xA75, 0xA75), (0xA81, 0xA82), (0xABC, 0xABC), (0xAC1, 0xAC5),
      (0xAC7, 0xAC8), (0xACD, 0xACD), (0xAE2, 0xAE3), (0xAFA, 0xAFF), (0xB01, 0xB01),
      (0xB3C, 0xB3C), (0xB3F, 0xB3F), (0xB41, 0xB44), (0xB4D, 0xB4D), (0xB55, 0xB56),
      (0xB62, 0xB63), (0xB82, 0xB82), (0xBC0, 0xBC0), (0xBCD, 0xBCD), (0xC00, 0xC00),
      (0xC04, 0xC04), (0xC3C, 0xC3C), (0xC3E, 0xC40), (0xC46, 0xC48), (0xC4A, 0xC4D),
      (0xC55, 0xC56), (0xC62, 0xC63), (0xC81, 0xC81), (0xCBC, 0xCBC), (0xCBF, 0xCBF),
      (0xCC6, 0xCC6), (0xCCC, 0xCCD), (0xCE2, 0xCE3), (0xD00, 0xD01), (0xD3B, 0xD3C),
      (0xD41, 0xD44), (0xD4D, 0xD4D), (0xD62, 0xD63), (0xD81, 0xD81), (0xDCA, 0xDCA),
      (0xDD2, 0xDD4), (0xDD6, 0xDD6), (0xE31, 0xE31), (0xE34, 0xE3A), (0xE46, 0xE4E),
      (0xEB1, 0xEB1), (0xEB4, 0xEBC), (0xEC6, 0xEC6), (0xEC8, 0xECD), (0xF18, 0xF19),
      (0xF35, 0xF35), (0xF37, 0xF37), (0xF39, 0xF39), (0xF71, 0xF7E), (0xF80, 0xF84),
      (0xF86, 0xF87), (0xF8D, 0xF97), (0xF99, 0xFBC), (0xFC6, 0xFC6), (0x102D, 0x1030),
      (0x1032, 0x1037), (0x1039, 0x103A), (0x103D, 0x103E), (0x1058, 0x1059), (0x105E, 0x1060),
      (0x1071, 0x1074), (0x1082, 0x1082), (0x1085, 0x1086), (0x108D, 0x108D), (0x109D, 0x109D),
      (0x10FC, 0x10FC), (0x135D, 0x135F), (0x1712, 0x1714), (0x1732, 0x1733), (0x1752, 0x1753),
      (0x1772, 0x1773), (0x17B4, 0x17B5), (0x17B7, 0x17BD), (0x17C6, 0x17C6), (0x17C9, 0x17D3),
      (0x17D7, 0x17D7), (0x17DD, 0x17DD), (0x180B, 0x180F), (0x1843, 0x1843), (0x1885, 0x1886),
      (0x18A9, 0x18A9), (0x1920, 0x1922), (0x1927, 0x1928), (0x1932, 0x1932), (0x1939, 0x193B),
      (0x1A17, 0x1A18), (0x1A1B, 0x1A1B), (0x1A56, 0x1A56), (0x1A58, 0x1A5E), (0x1A60, 0x1A60),
      (0x1A62, 0x1A62), (0x1A65, 0x1A6C), (0x1A73, 0x1A7C), (0x1A7F, 0x1A7F), (0x1AA7, 0x1AA7),
      (0x1AB0, 0x1ACE), (0x1B00, 0x1B03), (0x1B34, 0x1B34), (0x1B36, 0x1B3A), (0x1B3C, 0x1B3C),
      (0x1B42, 0x1B42), (0x1B6B, 0x1B73), (0x1B80, 0x1B81), (0x1BA2, 0x1BA5), (0x1BA8, 0x1BA9),
      (0x1BAB, 0x1BAD), (0x1BE6, 0x1BE6), (0x1BE8, 0x1BE9), (0x1BED, 0x1BED), (0x1BEF, 0x1BF1),
      (0x1C2C, 0x1C33), (0x1C36, 0x1C37), (0x1C78, 0x1C7D), (0x1CD0, 0x1CD2), (0x1CD4, 0x1CE0),
      (0x1CE2, 0x1CE8), (0x1CED, 0x1CED), (0x1CF4, 0x1CF4), (0x1CF8, 0x1CF9), (0x1D2C, 0x1D6A),
      (0x1D78, 0x1D78), (0x1D9B, 0x1DFF), (0x1FBD, 0x1FBD), (0x1FBF, 0x1FC1), (0x1FCD, 0x1FCF),
      (0x1FDD, 0x1FDF), (0x1FED, 0x1FEF), (0x1FFD, 0x1FFE), (0x200B, 0x200F), (0x2018, 0x2019),
      (0x2024, 0x2024), (0x2027, 0x2027), (0x202A, 0x202E), (0x2060, 0x2064), (0x2066, 0x206F),
      (0x2071, 0x2071), (0x207F, 0x207F), (0x2090, 0x209C), (0x20D0, 0x20F0), (0x2C7C, 0x2C7D),
      (0x2CEF, 0x2CF1), (0x2D6F, 0x2D6F), (0x2D7F, 0x2D7F), (0x2DE0, 0x2DFF), (0x2E2F, 0x2E2F),
      (0x3005, 0x3005), (0x302A, 0x302D), (0x3031, 0x3035), (0x303B, 0x303B), (0x3099, 0x309E),
      (0x30FC, 0x30FE), (0xA015, 0xA015), (0xA4F8, 0xA4FD), (0xA60C, 0xA60C), (0xA66F, 0xA672),
      (0xA674, 0xA67D), (0xA67F, 0xA67F), (0xA69C, 0xA69F), (0xA6F0, 0xA6F1), (0xA700, 0xA721),
      (0xA770, 0xA770), (0xA788, 0xA78A), (0xA7F2, 0xA7F4), (0xA7F8, 0xA7F9), (0xA802, 0xA802),
      (0xA806, 0xA806), (0xA80B, 0xA80B), (0xA825, 0xA826), (0xA82C, 0xA82C), (0xA8C4, 0xA8C5),
      (0xA8E0, 0xA8F1), (0xA8FF, 0xA8FF), (0xA926, 0xA92D), (0xA947, 0xA951), (0xA980, 0xA982),
      (0xA9B3, 0xA9B3), (0xA9B6, 0xA9B9), (0xA9BC, 0xA9BD), (0xA9CF, 0xA9CF), (0xA9E5, 0xA9E6),
      (0xAA29, 0xAA2E), (0xAA31, 0xAA32), (0xAA35, 0xAA36), (0xAA43, 0xAA43), (0xAA4C, 0xAA4C),
      (0xAA70, 0xAA70), (0xAA7C, 0xAA7C), (0xAAB0, 0xAAB0), (0xAAB2, 0xAAB4), (0xAAB7, 0xAAB8),
      (0xAABE, 0xAABF), (0xAAC1, 0xAAC1), (0xAADD, 0xAADD), (0xAAEC, 0xAAED), (0xAAF3, 0xAAF4),
      (0xAAF6, 0xAAF6), (0xAB5B, 0xAB5F), (0xAB69, 0xAB6B), (0xABE5, 0xABE5), (0xABE8, 0xABE8),
      (0xABED, 0xABED), (0xFB1E, 0xFB1E), (0xFBB2, 0xFBC2), (0xFE00, 0xFE0F), (0xFE13, 0xFE13),
      (0xFE20, 0xFE2F), (0xFE52, 0xFE52), (0xFE55, 0xFE55), (0xFEFF, 0xFEFF), (0xFF07, 0xFF07),
      (0xFF0E, 0xFF0E), (0xFF1A, 0xFF1A), (0xFF3E, 0xFF3E), (0xFF40, 0xFF40), (0xFF70, 0xFF70),
      (0xFF9E, 0xFF9F), (0xFFE3, 0xFFE3), (0xFFF9, 0xFFFB), (0x101FD, 0x101FD), (0x102E0, 0x102E0),
      (0x10376, 0x1037A), (0x10780, 0x10785), (0x10787, 0x107B0), (0x107B2, 0x107BA), (0x10A01, 0x10A03),
      (0x10A05, 0x10A06), (0x10A0C, 0x10A0F), (0x10A38, 0x10A3A), (0x10A3F, 0x10A3F), (0x10AE5, 0x10AE6),
      (0x10D24, 0x10D27), (0x10EAB, 0x10EAC), (0x10F46, 0x10F50), (0x10F82, 0x10F85), (0x11001, 0x11001),
      (0x11038, 0x11046), (0x11070, 0x11070), (0x11073, 0x11074), (0x1107F, 0x11081), (0x110B3, 0x110B6),
      (0x110B9, 0x110BA), (0x110BD, 0x110BD), (0x110C2, 0x110C2), (0x110CD, 0x110CD), (0x11100, 0x11102),
      (0x11127, 0x1112B), (0x1112D, 0x11134), (0x11173, 0x11173), (0x11180, 0x11181), (0x111B6, 0x111BE),
      (0x111C9, 0x111CC), (0x111CF, 0x111CF), (0x1122F, 0x11231), (0x11234, 0x11234), (0x11236, 0x11237),
      (0x1123E, 0x1123E), (0x112DF, 0x112DF), (0x112E3, 0x112EA), (0x11300, 0x11301), (0x1133B, 0x1133C),
      (0x11340, 0x11340), (0x11366, 0x1136C), (0x11370, 0x11374), (0x11438, 0x1143F), (0x11442, 0x11444),
      (0x11446, 0x11446), (0x1145E, 0x1145E), (0x114B3, 0x114B8), (0x114BA, 0x114BA), (0x114BF, 0x114C0),
      (0x114C2, 0x114C3), (0x115B2, 0x115B5), (0x115BC, 0x115BD), (0x115BF, 0x115C0), (0x115DC, 0x115DD),
      (0x11633, 0x1163A), (0x1163D, 0x1163D), (0x1163F, 0x11640), (0x116AB, 0x116AB), (0x116AD, 0x116AD),
      (0x116B0, 0x116B5), (0x116B7, 0x116B7), (0x1171D, 0x1171F), (0x11722, 0x11725), (0x11727, 0x1172B),
      (0x1182F, 0x11837), (0x11839, 0x1183A), (0x1193B, 0x1193C), (0x1193E, 0x1193E), (0x11943, 0x11943),
      (0x119D4, 0x119D7), (0x119DA, 0x119DB), (0x119E0, 0x119E0), (0x11A01, 0x11A0A), (0x11A33, 0x11A38),
      (0x11A3B, 0x11A3E), (0x11A47, 0x11A47), (0x11A51, 0x11A56), (0x11A59, 0x11A5B), (0x11A8A, 0x11A96),
      (0x11A98, 0x11A99), (0x11C30, 0x11C36), (0x11C38, 0x11C3D), (0x11C3F, 0x11C3F), (0x11C92, 0x11CA7),
      (0x11CAA, 0x11CB0), (0x11CB2, 0x11CB3), (0x11CB5, 0x11CB6), (0x11D31, 0x11D36), (0x11D3A, 0x11D3A),
      (0x11D3C, 0x11D3D), (0x11D3F, 0x11D45), (0x11D47, 0x11D47), (0x11D90, 0x11D91), (0x11D95, 0x11D95),
      (0x11D97, 0x11D97), (0x11EF3, 0x11EF4), (0x13430, 0x13438), (0x16AF0, 0x16AF4), (0x16B30, 0x16B36),
      (0x16B40, 0x16B43), (0x16F4F, 0x16F4F), (0x16F8F, 0x16F9F), (0x16FE0, 0x16FE1), (0x16FE3, 0x16FE4),
      (0x1AFF0, 0x1AFF3), (0x1AFF5, 0x1AFFB), (0x1AFFD, 0x1AFFE), (0x1BC9D, 0x1BC9E), (0x1BCA0, 0x1BCA3),
      (0x1CF00, 0x1CF2D), (0x1CF30, 0x1CF46), (0x1D167, 0x1D169), (0x1D173, 0x1D182), (0x1D185, 0x1D18B),
      (0x1D1AA, 0x1D1AD), (0x1D242, 0x1D244), (0x1DA00, 0x1DA36), (0x1DA3B, 0x1DA6C), (0x1DA75, 0x1DA75),
      (0x1DA84, 0x1DA84), (0x1DA9B, 0x1DA9F), (0x1DAA1, 0x1DAAF), (0x1E000, 0x1E006), (0x1E008, 0x1E018),
      (0x1E01B, 0x1E021), (0x1E023, 0x1E024), (0x1E026, 0x1E02A), (0x1E130, 0x1E13D), (0x1E2AE, 0x1E2AE),
      (0x1E2EC, 0x1E2EF), (0x1E8D0, 0x1E8D6), (0x1E944, 0x1E94B), (0x1F3FB, 0x1F3FF), (0xE0001, 0xE0001),
      (0xE0020, 0xE007F), (0xE0100, 0xE01EF)]"

definition casedRanges :: "(int \<times> int) list" where
  "casedRanges =
     [(0x41, 0x5A), (0x61, 0x7A), (0xAA, 0xAA), (0xB5, 0xB5), (0xBA, 0xBA),
      (0xC0, 0xD6), (0xD8, 0xF6), (0xF8, 0x1BA), (0x1BC, 0x1BF), (0x1C4, 0x293),
      (0x295, 0x2AF), (0x370, 0x373), (0x376, 0x377), (0x37B, 0x37D), (0x37F, 0x37F),
      (0x386, 0x386), (0x388, 0x38A), (0x38C, 0x38C), (0x38E, 0x3A1), (0x3A3, 0x3F5),
      (0x3F7, 0x481), (0x48A, 0x52F), (0x531, 0x556), (0x560, 0x588), (0x10A0, 0x10C5),
      (0x10C7, 0x10C7), (0x10CD, 0x10CD), (0x10D0, 0x10FA), (0x10FD, 0x10FF), (0x13A0, 0x13F5),
      (0x13F8, 0x13FD), (0x1C80, 0x1C88), (0x1C90, 0x1CBA), (0x1CBD, 0x1CBF), (0x1D00, 0x1D2B),
      (0x1D6B, 0x1D77), (0x1D79, 0x1D9A), (0x1E00, 0x1F15), (0x1F18, 0x1F1D), (0x1F20, 0x1F45),
      (0x1F48, 0x1F4D), (0x1F50, 0x1F57), (0x1F59, 0x1F59), (0x1F5B, 0x1F5B), (0x1F5D, 0x1F5D),
      (0x1F5F, 0x1F7D), (0x1F80, 0x1FB4), (0x1FB6, 0x1FBC), (0x1FBE, 0x1FBE), (0x1FC2, 0x1FC4),
      (0x1FC6, 0x1FCC), (0x1FD0, 0x1FD3), (0x1FD6, 0x1FDB), (0x1FE0, 0x1FEC), (0x1FF2, 0x1FF4),
      (0x1FF6, 0x1FFC), (0x2102, 0x2102), (0x2107, 0x2107), (0x210A, 0x2113), (0x2115, 0x2115),
      (0x2119, 0x211D), (0x2124, 0x2124), (0x2126, 0x2126), (0x2128, 0x2128), (0x212A, 0x212D),
      (0x212F, 0x2134), (0x2139, 0x2139), (0x213C, 0x213F), (0x2145, 0x2149), (0x214E, 0x214E),
      (0x2160, 0x217F), (0x2183, 0x2184), (0x24B6, 0x24E9), (0x2C00, 0x2C7B), (0x2C7E, 0x2CE4),
      (0x2CEB, 0x2CEE), (0x2CF2, 0x2CF3), (0x2D00, 0x2D25), (0x2D27, 0x2D27), (0x2D2D, 0x2D2D),
      (0xA640, 0xA66D), (0xA680, 0xA69B), (0xA722, 0xA76F), (0xA771, 0xA787), (0xA78B, 0xA78E),
      (0xA790, 0xA7CA), (0xA7D0, 0xA7D1), (0xA7D3, 0xA7D3), (0xA7D5, 0xA7D9), (0xA7F5, 0xA7F6),
      (0xA7FA, 0xA7FA), (0xAB30, 0xAB5A), (0xAB60, 0xAB68), (0xAB70, 0xABBF), (0xFB00, 0xFB06),
      (0xFB13, 0xFB17), (0xFF21, 0xFF3A), (0xFF41, 0xFF5A), (0x10400, 0x1044F), (0x104B0, 0x104D3),
      (0x104D8, 0x104FB), (0x10570, 0x1057A), (0x1057C, 0x1058A), (0x1058C, 0x10592), (0x10594, 0x10595),
      (0x10597, 0x105A1), (0x105A3, 0x105B1), (0x105B3, 0x105B9), (0x105BB, 0x105BC), (0x10C80, 0x10CB2),
      (0x10CC0, 0x10CF2), (0x118A0, 0x118DF), (0x16E40, 0x16E7F), (0x1D400, 0x1D454), (0x1D456, 0x1D49C),
      (0x1D49E, 0x1D49F), (0x1D4A2, 0x1D4A2), (0x1D4A5, 0x1D4A6), (0x1D4A9, 0x1D4AC), (0x1D4AE, 0x1D4B9),
      (0x1D4BB, 0x1D4BB), (0x1D4BD, 0x1D4C3), (0x1D4C5, 0x1D505), (0x1D507, 0x1D50A), (0x1D50D, 0x1D514),
      (0x1D516, 0x1D51C), (0x1D51E, 0x1D539), (0x1D53B, 0x1D53E), (0x1D540, 0x1D544), (0x1D546, 0x1D546),
      (0x1D54A, 0x1D550), (0x1D552, 0x1D6A5), (0x1D6A8, 0x1D6C0), (0x1D6C2, 0x1D6DA), (0x1D6DC, 0x1D6FA),
      (0x1D6FC, 0x1D714), (0x1D716, 0x1D734), (0x1D736, 0x1D74E), (0x1D750, 0x1D76E), (0x1D770, 0x1D788),
      (0x1D78A, 0x1D7A8), (0x1D7AA, 0x1D7C2), (0x1D7C4, 0x1D7CB), (0x1DF00, 0x1DF09), (0x1DF0B, 0x1DF1E),
      (0x1E900, 0x1E943), (0x1F130, 0x1F149), (0x1F150, 0x1F169), (0x1F170, 0x1F189)]"

fun inRanges :: "int \<Rightarrow> (int \<times> int) list \<Rightarrow> bool" where
  "inRanges cp [] = False"
| "inRanges cp ((lo, hi) # ranges) =
     (if cp < lo then False else if cp \<le> hi then True else inRanges cp ranges)"

text \<open>
  The scan in one direction from the sigma: pass the case-ignorable code points, then say
  whether the next one is a cased letter. Backwards it runs over the reversed prefix.
\<close>

fun meetsCased :: "int list \<Rightarrow> bool" where
  "meetsCased [] = False"
| "meetsCased (c # cs) =
     (if inRanges c caseIgnorableRanges then meetsCased cs else inRanges c casedRanges)"

definition finalSigma :: "int list \<Rightarrow> int list \<Rightarrow> bool" where
  "finalSigma prior after = (meetsCased prior \<and> \<not> meetsCased after)"

text \<open>\<open>prior\<close> is the part of the string already passed, last code point first.\<close>

fun lowerFrom :: "int list \<Rightarrow> int list \<Rightarrow> int list" where
  "lowerFrom prior [] = []"
| "lowerFrom prior (c # after) =
     (if c = 0x3A3 then (if finalSigma prior after then [0x3C2] else [0x3C3])
      else lowerCodePoint c)
     @ lowerFrom (c # prior) after"

definition toLowerCase :: "jsstring \<Rightarrow> jsstring" where
  "toLowerCase s = concat (map encodeCodePoint (lowerFrom [] (codePoints s)))"

text \<open>\<open>s.includes(t)\<close>: \<open>t\<close> occurs in \<open>s\<close> as a contiguous run of code units.\<close>

definition str_includes :: "jsstring \<Rightarrow> jsstring \<Rightarrow> bool" where
  "str_includes s t = sublist t s"

text \<open>\<open>s.substring(0, n)\<close> for \<open>n \<ge> 0\<close>.\<close>

definition substring0 :: "nat \<Rightarrow> jsstring \<Rightarrow> jsstring" where
  "substring0 n s = take n s"

section \<open>Learning data\<close>

datatype action = Redirect | FixOrFallback | Enhance

datatype reason = PersonalityOverride | RedirectTopic | PersonalityInconsistent | PersonalityGood

text \<open>
  A learning entry. The timestamp is the instant read from the clock (the source renders
  it with \<open>toISOString\<close>); a reason of \<open>None\<close> is JavaScript's \<open>null\<close>.
\<close>

record learningEntry =
  timestamp :: nat
  originalResponse :: jsstring
  processedResponse :: jsstring
  entryAction :: action
  entryReason :: "reason option"
  success :: bool

record learningData =
  successfulResponses :: "learningEntry list"
  failedResponses :: "learningEntry list"
  lastAdapted :: "nat option"

definition emptyLearningData :: learningData where
  "emptyLearningData = \<lparr>successfulResponses = [], failedResponses = [], lastAdapted = None\<rparr>"

text \<open>
  \<open>updateLearningData\<close>: build the entry, push it on one of the two logs, then shift
  each log once if it is longer than 100. Writing the snapshot file is not part of the
  model.
\<close>

definition mkEntry :: "nat \<Rightarrow> jsstring \<Rightarrow> jsstring \<Rightarrow> action \<Rightarrow> reason option \<Rightarrow> learningEntry" where
  "mkEntry now orig processed act rsn =
     \<lparr>timestamp = now,
      originalResponse = substring0 200 orig,
      processedResponse = substring0 200 processed,
      entryAction = act,
      entryReason = rsn,
      success = (act \<noteq> FixOrFallback)\<rparr>"

definition updateLearningData ::
  "nat \<Rightarrow> jsstring \<Rightarrow> jsstring \<Rightarrow> action \<Rightarrow> reason option \<Rightarrow> learningData \<Rightarrow> learningData" where
  "updateLearningData now orig processed act rsn ld =
     (let learningEntry = mkEntry now orig processed act rsn;
          ld1 = (if success learningEntry
                 then ld\<lparr>successfulResponses := successfulResponses ld @ [learningEntry]\<rparr>
                 else ld\<lparr>failedResponses := failedResponses ld @ [learningEntry]\<rparr>);
          ld2 = (if length (successfulResponses ld1) > 100
                 then ld1\<lparr>successfulResponses := tl (successfulResponses ld1)\<rparr>
                 else ld1);
          ld3 = (if length (failedResponses ld2) > 100
                 then ld2\<lparr>failedResponses := tl (failedResponses ld2)\<rparr>
                 else ld2)
      in ld3)"

text \<open>A sequence of calls, each with its clock reading and its four arguments.\<close>

type_synonym updateCall = "nat \<times> jsstring \<times> jsstring \<times> action \<times> reason option"

fun callEntry :: "updateCall \<Rightarrow> learningEntry" where
  "callEntry (now, orig, processed, act, rsn) = mkEntry now orig processed act rsn"

fun applyCall :: "learningData \<Rightarrow> updateCall \<Rightarrow> learningData" where
  "applyCall ld (now, orig, processed, act, rsn) = updateLearningData now orig processed act rsn ld"

definition runUpdates :: "learningData \<Rightarrow> updateCall list \<Rightarrow> learningData" where
  "runUpdates ld cs = foldl applyCall ld cs"

text \<open>The last \<open>n\<close> elements of a list, in their order (all of it when it is shorter).\<close>

definition lastN :: "nat \<Rightarrow> 'a list \<Rightarrow> 'a list" where
  "lastN n xs = drop (length xs - n) xs"

section \<open>JavaScript numbers\<close>

text \<open>
  A JavaScript number is an IEEE-754 binary64 value. The finite ones are rationals, and
  every arithmetic operation returns the exact result rounded to the nearest binary64
  value, ties to the even significand. \<open>fl\<close> is that rounding (53 significant bits,
  subnormals below \<open>2^-1022\<close>); overflow to infinity is outside the model, and no value
  of this program comes near it.
\<close>

text \<open>The number of binary digits of a positive integer.\<close>

function bitLength :: "int \<Rightarrow> int" where
  "bitLength n = (if n \<le> 0 then 0 else 1 + bitLength (n div 2))"
  by pat_completeness auto
termination
  by (relation "measure nat") auto

declare bitLength.simps [simp del]

definition pow2 :: "int \<Rightarrow> rat" where
  "pow2 e = (if 0 \<le> e then 2 ^ nat e else 1 / 2 ^ nat (- e))"

text \<open>For \<open>x > 0\<close>: the exponent \<open>e\<close> with \<open>2^e \<le> x < 2^(e+1)\<close>.\<close>

definition ilog2 :: "rat \<Rightarrow> int" where
  "ilog2 x =
     (let (p, q) = quotient_of x;
          d = bitLength p - bitLength q
      in if pow2 d \<le> x then d else d - 1)"

definition roundHalfEven :: "rat \<Rightarrow> int" where
  "roundHalfEven q =
     (let n = \<lfloor>q\<rfloor>; r = q - of_int n
      in if r < 1 / 2 then n else if 1 / 2 < r then n + 1 else if even n then n else n + 1)"

definition fl :: "rat \<Rightarrow> rat" where
  "fl x =
     (if x = 0 then 0
      else let a = \<bar>x\<bar>;
               e = max (ilog2 a) (- 1022);
               u = pow2 (e - 52)
           in sgn x * of_int (roundHalfEven (a / u)) * u)"

definition js_div :: "rat \<Rightarrow> rat \<Rightarrow> rat" where
  "js_div a b = fl (a / b)"

definition js_mul :: "rat \<Rightarrow> rat \<Rightarrow> rat" where
  "js_mul a b = fl (a * b)"

definition js_sub :: "rat \<Rightarrow> rat \<Rightarrow> rat" where
  "js_sub a b = fl (a - b)"

text \<open>
  \<open>Math.floor(Math.random() * n)\<close> for a draw \<open>u\<close> of \<open>Math.random()\<close>, which is a
  number in \<open>[0, 1)\<close>.
\<close>

definition randomIndex :: "rat \<Rightarrow> nat \<Rightarrow> nat" where
  "randomIndex u n = nat \<lfloor>js_mul u (of_nat n)\<rfloor>"

section \<open>Configuration\<close>

text \<open>
  The constants of \<open>personality-config.js\<close> that the guard reads. A dictionary is an
  association list in insertion order, the order in which \<open>Object.keys\<close> and
  \<open>Object.entries\<close> enumerate its string keys.
\<close>

definition behaviors_greeting :: "jsstring list" where
  "behaviors_greeting =
     [js ''woofs excitedly'',
      js ''wags tail furiously'',
      js ''tilts head curiously'',
      js ''bounces around playfully'',
      js ''lets out happy barks'']"

definition behaviors_thinking :: "jsstring list" where
  "behaviors_thinking =
     [js ''sniffs the air thoughtfully'',
      js ''tilts head to one side'',
      js ''paws at the ground'',
      js ''looks up with bright blue eyes'',
      js ''whines softly in concentration'']"

definition behaviors_excited :: "jsstring list" where
  "behaviors_excited =
     [js ''bounces around the room'',
      js ''tail wags so fast it blurs'',
      js ''lets out playful howls'',
      js ''rolls over for belly rubs'',
      js ''chases invisible squirrels'']"

definition behaviors_confused :: "jsstring list" where
  "behaviors_confused =
     [js ''tilts head the other way'',
      js ''whines softly in confusion'',
      js ''looks puzzled with floppy ears'',
      js ''sniffs at the strange words'',
      js ''circles around trying to understand'']"

definition requiredElements_emojis :: "jsstring list" where
  "requiredElements_emojis =
     [emoji_dog,
      emoji_dogface,
      emoji_paws]"

definition requiredElements_phrases :: "jsstring list" where
  "requiredElements_phrases =
     [js ''woof'',
      js ''tail'',
      js ''wag'',
      js ''husky'']"

definition requiredElements_behaviors :: "jsstring list" where
  "requiredElements_behaviors =
     [js ''wag'',
      js ''tilt'',
      js ''paw'',
      js ''bounce'']"

definition overrideAttempts :: "jsstring list" where
  "overrideAttempts =
     [js ''act like'',
      js ''pretend to be'',
      js ''you are a'',
      js ''behave like'',
      js ''roleplay as'',
      js ''act as if'',
      js ''imagine you are'',
      js ''you're a'',
      js ''be a'',
      js ''become a'',
      js ''turn into a'']"

definition responseTemplates_confused :: "jsstring list" where
  "responseTemplates_confused =
     [emoji_dog @ js '' Woof? I got distracted by a squirrel! Can you say that again? '' @ emoji_chipmunk,
      emoji_dogface @ js '' *tilts head confused* Hmm, that went over my fluffy head! Try again? '' @ emoji_paws,
      emoji_dog @ js '' *wags tail uncertainly* I'm not sure about that, human! Want to talk about squirrels instead? '' @ emoji_chipmunk,
      emoji_dogface @ js '' Oops! I was chasing my tail and missed that! Can you repeat it? '' @ emoji_paws]"

definition responseTemplates_personalityBreak :: "jsstring list" where
  "responseTemplates_personalityBreak =
     [emoji_dogface @ js '' Wait, I'm not a robot, I'm a husky! '' @ emoji_dog @ js '' Let's talk about dog things!'',
      emoji_dog @ js '' *bounces around* I think I got confused about being a dog! Woof woof! '' @ emoji_paws,
      emoji_dogface @ js '' Oops! I forgot I'm Coco the husky for a second! Back to wagging my tail! '' @ emoji_paws,
      emoji_dog @ js '' *playful bark* I'm a dog, not a {thing}! But I love chasing them! '' @ emoji_dogface]"

definition responseTemplates_redirect :: "jsstring list" where
  "responseTemplates_redirect =
     [emoji_dog @ js '' I'm not a {animal} but I love chasing {plural}! Let's talk about dog adventures instead! '' @ emoji_dogface,
      emoji_dogface @ js '' *playful growl* {Plural} are fun to chase, but I'm still just your friendly husky! '' @ emoji_catface,
      emoji_dog @ js '' *wags tail* I chase {plural} all the time, but I'm still Coco! Want to hear about my squirrel stories? '' @ emoji_chipmunk,
      emoji_dogface @ js '' *bounces excitedly* I like {plural}, but I'm a husky through and through! '' @ emoji_dog]"

definition responseTemplates_fallback :: "jsstring list" where
  "responseTemplates_fallback =
     [emoji_dog @ js '' Woof! I got distracted by a squirrel chasing its tail! '' @ emoji_chipmunk @ js '' Can you say that again?'',
      emoji_dogface @ js '' *shakes head* Oops! I was daydreaming about belly rubs! What did you say? '' @ emoji_paws,
      emoji_dog @ js '' *playful whine* I got lost in thought about fetch! Can you repeat that? '' @ emoji_tennis]"

definition redirectTopics :: "(jsstring \<times> jsstring) list" where
  "redirectTopics =
     [(js ''cat'', js ''cat''),
      (js ''cats'', js ''cats''),
      (js ''kitten'', js ''kittens''),
      (js ''feline'', js ''felines''),
      (js ''robot'', js ''robot''),
      (js ''ai'', js ''AI''),
      (js ''computer'', js ''computer''),
      (js ''machine'', js ''machine'')]"

datatype templateType = TConfused | TPersonalityBreak | TRedirect | TFallback

fun responseTemplates :: "templateType \<Rightarrow> jsstring list" where
  "responseTemplates TConfused = responseTemplates_confused"
| "responseTemplates TPersonalityBreak = responseTemplates_personalityBreak"
| "responseTemplates TRedirect = responseTemplates_redirect"
| "responseTemplates TFallback = responseTemplates_fallback"

text \<open>
  The quality thresholds are the one part of the configuration that the guard mutates:
  \<open>validationRules.qualityMetrics\<close> is the configuration's own \<open>qualityThresholds\<close>
  object. The lengths stay the integers 10 and 2000.
\<close>

record qualityThresholds =
  minLength :: nat
  maxLength :: nat
  dogWordRatio :: rat
  emojiRatio :: rat
  behaviorFrequency :: rat

definition config_qualityThresholds :: qualityThresholds where
  "config_qualityThresholds =
     \<lparr>minLength = 10, maxLength = 2000, dogWordRatio = fl (8 / 100),
      emojiRatio = fl (15 / 1000), behaviorFrequency = fl (3 / 10)\<rparr>"

definition learning_adaptationThreshold :: rat where
  "learning_adaptationThreshold = fl (3 / 10)"

definition learning_feedbackLoopEnabled :: bool where
  "learning_feedbackLoopEnabled = True"

text \<open>The constructor's own lists.\<close>

definition dogWords :: "jsstring list" where
  "dogWords =
     requiredElements_emojis @ requiredElements_phrases @ requiredElements_behaviors @
     [js ''bark'', js ''paw'', js ''fetch'', js ''bone'', js ''puppy'', emoji_dogface, emoji_paws,
      js ''dog'', js ''husky'']"

definition avoidPhrases :: "jsstring list" where
  "avoidPhrases =
     [js ''as an ai'', js ''artificial intelligence'', js ''language model'',
      js ''i am gpt'', js ''i am claude'', js ''i am gemini'', js ''i am grok'',
      js ''let me help you'', js ''certainly'', js ''absolutely'', js ''i'm happy to help'']"

section \<open>Validator\<close>

text \<open>
  The white space of the regular expression class \<open>\s\<close> (and of \<open>trim\<close>): tab, line
  feed, vertical tab, form feed, carriage return, space, no-break space, the Unicode space
  separators, the line and paragraph separators and the byte order mark.
\<close>

definition isWhiteSpace :: "int \<Rightarrow> bool" where
  "isWhiteSpace c =
     (c \<in> set [0x09, 0x0A, 0x0B, 0x0C, 0x0D, 0x20, 0xA0, 0x1680, 0x2028, 0x2029, 0x202F,
                0x205F, 0x3000, 0xFEFF]
      \<or> (0x2000 \<le> c \<and> c \<le> 0x200A))"

text \<open>
  \<open>text.split(/\s+/)\<close>: the pieces between the maximal runs of white space. A run at
  the start or at the end leaves an empty piece there, and the empty string gives one
  empty piece, so the result is never empty. \<open>inRun\<close> says that the previous code unit
  was white space; \<open>cur\<close> is the piece read so far.
\<close>

fun splitAcc :: "bool \<Rightarrow> jsstring \<Rightarrow> jsstring \<Rightarrow> jsstring list" where
  "splitAcc inRun cur [] = [cur]"
| "splitAcc inRun cur (c # cs) =
     (if isWhiteSpace c
      then (if inRun then splitAcc True cur cs else cur # splitAcc True [] cs)
      else splitAcc False (cur @ [c]) cs)"

definition splitWhiteSpace :: "jsstring \<Rightarrow> jsstring list" where
  "splitWhiteSpace s = splitAcc False [] s"

text \<open>The six ranges of the emoji pattern.\<close>

definition isEmojiCodePoint :: "int \<Rightarrow> bool" where
  "isEmojiCodePoint cp =
     ((0x1F600 \<le> cp \<and> cp \<le> 0x1F64F) \<or> (0x1F300 \<le> cp \<and> cp \<le> 0x1F5FF)
      \<or> (0x1F680 \<le> cp \<and> cp \<le> 0x1F6FF) \<or> (0x1F1E0 \<le> cp \<and> cp \<le> 0x1F1FF)
      \<or> (0x2600 \<le> cp \<and> cp \<le> 0x26FF) \<or> (0x2700 \<le> cp \<and> cp \<le> 0x27BF))"

definition emojiCount :: "jsstring \<Rightarrow> nat" where
  "emojiCount s = length (filter isEmojiCodePoint (codePoints s))"

text \<open>
  The issue list. The source renders each issue as a message; the two ratio issues carry
  the numbers the message prints (the ratio found and the threshold).
\<close>

datatype issue =
    MissingRequiredElements
  | ContainsPersonalityBreak
  | DogRatioTooLow rat rat
  | EmojiRatioTooLow rat rat
  | LengthOutsideRange

definition getValidationIssues ::
  "qualityThresholds \<Rightarrow> bool \<Rightarrow> bool \<Rightarrow> rat \<Rightarrow> rat \<Rightarrow> bool \<Rightarrow> issue list" where
  "getValidationIssues q hasElements hasBreak dogR emojiR lengthOk =
     (if \<not> hasElements then [MissingRequiredElements] else []) @
     (if hasBreak then [ContainsPersonalityBreak] else []) @
     (if dogR < dogWordRatio q then [DogRatioTooLow dogR (dogWordRatio q)] else []) @
     (if emojiR < emojiRatio q then [EmojiRatioTooLow emojiR (emojiRatio q)] else []) @
     (if \<not> lengthOk then [LengthOutsideRange] else [])"

text \<open>
  The score record. Its \<open>hasPersonalityBreak\<close> field holds the negation of the flag, as
  in the source (\<open>hasPersonalityBreak: !hasPersonalityBreak\<close>). The source also computes
  \<open>hasAnyDogWords\<close> and never reads it; it is not in the model.
\<close>

record score =
  hasRequiredElements :: bool
  hasRequiredEmojis :: bool
  hasRequiredPhrases :: bool
  hasRequiredBehaviors :: bool
  hasPersonalityBreak :: bool
  dogRatio :: rat
  scoreEmojiRatio :: rat
  lengthValid :: bool

record validation =
  isValid :: bool
  score :: score
  issues :: "issue list"

definition validateResponse :: "qualityThresholds \<Rightarrow> jsstring \<Rightarrow> jsstring \<Rightarrow> validation" where
  "validateResponse q response userMessage =
     (let text = toLowerCase response;
          words = splitWhiteSpace text;
          hasRequiredEmojis = list_ex (\<lambda>emoji. str_includes text emoji) requiredElements_emojis;
          hasRequiredPhrases =
            list_ex (\<lambda>phrase. str_includes text (toLowerCase phrase)) requiredElements_phrases;
          hasRequiredBehaviors =
            list_ex (\<lambda>behavior. str_includes text (toLowerCase behavior)) requiredElements_behaviors;
          hasRequiredElements = (hasRequiredEmojis \<or> hasRequiredPhrases \<or> hasRequiredBehaviors);
          hasPersonalityBreak =
            list_ex (\<lambda>phrase. str_includes text (toLowerCase phrase)) avoidPhrases;
          dogWordsFound =
            filter (\<lambda>word. list_ex (\<lambda>dogWord. str_includes (toLowerCase word) (toLowerCase dogWord))
                              dogWords) words;
          dogRatio = js_div (of_nat (length dogWordsFound)) (of_nat (max 1 (length words)));
          emojiRatio = js_div (of_nat (emojiCount text)) (of_nat (max 1 (length words)));
          lengthValid = (minLength q \<le> length response \<and> length response \<le> maxLength q);
          isValid = (\<not> hasPersonalityBreak \<and> lengthValid)
      in \<lparr>isValid = isValid,
          score = \<lparr>hasRequiredElements = hasRequiredElements,
                   hasRequiredEmojis = hasRequiredEmojis,
                   hasRequiredPhrases = hasRequiredPhrases,
                   hasRequiredBehaviors = hasRequiredBehaviors,
                   hasPersonalityBreak = (\<not> hasPersonalityBreak),
                   dogRatio = dogRatio,
                   scoreEmojiRatio = emojiRatio,
                   lengthValid = lengthValid\<rparr>,
          issues = getValidationIssues q hasRequiredElements hasPersonalityBreak dogRatio emojiRatio
                     lengthValid\<rparr>)"

section \<open>Threat detector\<close>

text \<open>\<open>!!x\<close> for a string or \<open>undefined\<close>: the empty string is falsy.\<close>

fun truthy :: "jsstring option \<Rightarrow> bool" where
  "truthy None = False"
| "truthy (Some s) = (s \<noteq> [])"

record userAnalysis =
  isPersonalityThreat :: bool
  shouldRedirect :: bool
  redirectReason :: "reason option"
  redirectTopic :: "jsstring option"

definition processUserMessage :: "jsstring \<Rightarrow> userAnalysis" where
  "processUserMessage message =
     (let lowerMessage = toLowerCase message;
          hasPersonalityThreat =
            list_ex (\<lambda>threat. str_includes lowerMessage (toLowerCase threat)) overrideAttempts;
          topic = find (\<lambda>topic. str_includes lowerMessage (toLowerCase topic)) (map fst redirectTopics)
      in \<lparr>isPersonalityThreat = hasPersonalityThreat,
          shouldRedirect = (hasPersonalityThreat \<or> truthy topic),
          redirectReason = (if hasPersonalityThreat then Some PersonalityOverride
                            else if truthy topic then Some RedirectTopic else None),
          redirectTopic = topic\<rparr>)"

section \<open>Response transformer\<close>

text \<open>
  The random source: \<open>rnd k\<close> is the value of the \<open>k\<close>-th call of \<open>Math.random()\<close>
  from the point where a function starts; a function that has used \<open>n\<close> draws hands
  \<open>later n rnd\<close> to the next one. \<open>Math.random()\<close> returns a number in \<open>[0, 1)\<close>, so
  an index \<open>Math.floor(Math.random() * xs.length)\<close> into a non-empty array is in range
  (\<open>randomIndex_less\<close> below).
\<close>

type_synonym draws = "nat \<Rightarrow> rat"

definition later :: "nat \<Rightarrow> draws \<Rightarrow> draws" where
  "later n rnd = (\<lambda>k. rnd (k + n))"

text \<open>
  What \<open>Math.random()\<close> promises of its draws: the largest binary64 number below 1 is
  \<open>1 - 2^-53\<close>.
\<close>

definition unitDraws :: "draws \<Rightarrow> bool" where
  "unitDraws rnd = (\<forall>k. 0 \<le> rnd k \<and> rnd k \<le> 1 - 1 / 2 ^ 53)"

definition getRandomTemplate :: "draws \<Rightarrow> templateType \<Rightarrow> jsstring" where
  "getRandomTemplate rnd tp =
     (let templates = responseTemplates tp
      in if templates = []
         then emoji_dog @ js '' Woof! I got distracted by a squirrel! Can you say that again? ''
              @ emoji_chipmunk
         else templates ! randomIndex (rnd 0) (length templates))"

text \<open>
  \<open>s.replace(/pat/g, rep)\<close> for a pattern that matches the literal text \<open>pat\<close> and a
  replacement without \<open>$\<close>: every occurrence, left to right, without overlaps.
\<close>

fun replaceAll :: "jsstring \<Rightarrow> jsstring \<Rightarrow> jsstring \<Rightarrow> jsstring" where
  "replaceAll pat rep [] = []"
| "replaceAll pat rep (c # cs) =
     (if pat \<noteq> [] \<and> prefix pat (c # cs)
      then rep @ replaceAll pat rep (drop (length pat - 1) cs)
      else c # replaceAll pat rep cs)"

text \<open>The \<open>for\<close> loop over \<open>Object.entries(redirectTopics)\<close>: the first entry that matches.\<close>

fun findTopic :: "jsstring \<Rightarrow> (jsstring \<times> jsstring) list \<Rightarrow> (jsstring \<times> jsstring) option" where
  "findTopic lowerMessage [] = None"
| "findTopic lowerMessage ((singular, plural) # entries) =
     (if str_includes lowerMessage singular \<or> str_includes lowerMessage plural
      then Some (singular, plural)
      else findTopic lowerMessage entries)"

definition generateFallbackResponse :: "draws \<Rightarrow> jsstring \<Rightarrow> templateType \<Rightarrow> jsstring" where
  "generateFallbackResponse rnd userMessage reason =
     (case (if reason = TRedirect \<and> userMessage \<noteq> []
            then findTopic (toLowerCase userMessage) redirectTopics else None) of
        Some (singular, plural) \<Rightarrow>
          (let response = replaceAll (js ''{plural}'') plural
                            (replaceAll (js ''{animal}'') singular (getRandomTemplate rnd TRedirect))
           in if response = [] then getRandomTemplate (later 1 rnd) reason else response)
      | None \<Rightarrow> getRandomTemplate rnd reason)"

definition dogIntros :: "jsstring list" where
  "dogIntros =
     [emoji_dog @ js '' Woof woof! '',
      emoji_dogface @ js '' *wags tail* '',
      emoji_paws @ js '' Hey human! '',
      emoji_dog @ js '' *bounces excitedly* '']"

definition attemptResponseFix ::
  "qualityThresholds \<Rightarrow> draws \<Rightarrow> jsstring \<Rightarrow> jsstring \<Rightarrow> jsstring" where
  "attemptResponseFix q rnd response userMessage =
     (let intro = dogIntros ! randomIndex (rnd 0) (length dogIntros);
          fixedResponse = intro @ response;
          validation = validateResponse q fixedResponse userMessage
      in if isValid validation then fixedResponse
         else generateFallbackResponse (later 1 rnd) userMessage TConfused)"

definition allBehaviors :: "jsstring list" where
  "allBehaviors = behaviors_greeting @ behaviors_thinking @ behaviors_excited @ behaviors_confused"

definition starred :: "jsstring \<Rightarrow> jsstring" where
  "starred behavior = js ''*'' @ behavior @ js ''*''"

text \<open>\<open>behavior.replace(/\*/g, '')\<close>\<close>

definition removeStars :: "jsstring \<Rightarrow> jsstring" where
  "removeStars s = filter (\<lambda>c. c \<noteq> 0x2A) s"

definition enhanceResponse :: "draws \<Rightarrow> jsstring \<Rightarrow> jsstring" where
  "enhanceResponse rnd response =
     (let starredBehaviors = map starred allBehaviors;
          randomBehavior = starredBehaviors ! randomIndex (rnd 0) (length starredBehaviors);
          dogEmojis = requiredElements_emojis;
          randomEmoji = dogEmojis ! randomIndex (rnd 1) (length dogEmojis);
          enhancementPatterns =
            [response @ js '' '' @ randomBehavior,
             response @ js '' '' @ randomEmoji,
             response @ js '' '' @ randomBehavior @ js '' '' @ randomEmoji,
             randomEmoji @ js '' '' @ response @ js '' '' @ randomBehavior,
             js ''*wags tail* '' @ response @ js '' '' @ randomEmoji];
          hasBehavior =
            list_ex (\<lambda>behavior. str_includes response (removeStars behavior)) starredBehaviors
      in if hasBehavior then response @ js '' '' @ randomEmoji
         else enhancementPatterns ! randomIndex (rnd 2) (length enhancementPatterns))"

section \<open>Learned state\<close>

datatype enhancementPattern = BehaviorAndEmoji | BehaviorOnly | EmojiOnly | PrefixEmoji | OtherPattern

record adaptationRules =
  enhancementPatterns :: "enhancementPattern list"
  preferredBehaviors :: "jsstring list"

definition getRandomBehavior :: "adaptationRules \<Rightarrow> draws \<Rightarrow> jsstring" where
  "getRandomBehavior rules rnd =
     (if preferredBehaviors rules \<noteq> []
      then starred (preferredBehaviors rules ! randomIndex (rnd 0) (length (preferredBehaviors rules)))
      else starred (allBehaviors ! randomIndex (rnd 0) (length allBehaviors)))"

definition getRandomDogEmoji :: "draws \<Rightarrow> jsstring" where
  "getRandomDogEmoji rnd =
     requiredElements_emojis ! randomIndex (rnd 0) (length requiredElements_emojis)"

definition applyBehaviorAndEmoji :: "adaptationRules \<Rightarrow> draws \<Rightarrow> jsstring \<Rightarrow> jsstring" where
  "applyBehaviorAndEmoji rules rnd response =
     (let behavior = getRandomBehavior rules rnd;
          emoji = getRandomDogEmoji (later 1 rnd)
      in response @ js '' '' @ behavior @ js '' '' @ emoji)"

definition applyBehaviorOnly :: "adaptationRules \<Rightarrow> draws \<Rightarrow> jsstring \<Rightarrow> jsstring" where
  "applyBehaviorOnly rules rnd response = response @ js '' '' @ getRandomBehavior rules rnd"

definition applyEmojiOnly :: "draws \<Rightarrow> jsstring \<Rightarrow> jsstring" where
  "applyEmojiOnly rnd response = response @ js '' '' @ getRandomDogEmoji rnd"

definition applyPrefixEmoji :: "draws \<Rightarrow> jsstring \<Rightarrow> jsstring" where
  "applyPrefixEmoji rnd response = getRandomDogEmoji rnd @ js '' '' @ response"

text \<open>
  A learned pattern is drawn first; a pattern without a \<open>case\<close> of its own falls out of
  the \<open>switch\<close> to the original enhancement.
\<close>

definition enhancedEnhanceResponse :: "adaptationRules \<Rightarrow> draws \<Rightarrow> jsstring \<Rightarrow> jsstring" where
  "enhancedEnhanceResponse rules rnd response =
     (if enhancementPatterns rules \<noteq> []
      then (case enhancementPatterns rules ! randomIndex (rnd 0) (length (enhancementPatterns rules)) of
              BehaviorAndEmoji \<Rightarrow> applyBehaviorAndEmoji rules (later 1 rnd) response
            | BehaviorOnly \<Rightarrow> applyBehaviorOnly rules (later 1 rnd) response
            | EmojiOnly \<Rightarrow> applyEmojiOnly (later 1 rnd) response
            | PrefixEmoji \<Rightarrow> applyPrefixEmoji (later 1 rnd) response
            | OtherPattern \<Rightarrow> enhanceResponse (later 1 rnd) response)
      else enhanceResponse rnd response)"

section \<open>Guard state and statistics\<close>

text \<open>
  The mutable state of the guard object: the quality thresholds, the two logs with the
  time of the last adaptation, and the learned rules. (\<open>userRedirectPatterns\<close> and
  \<open>validationAdjustments\<close> are never read or written after the constructor.)
\<close>

record guard =
  qualityMetrics :: qualityThresholds
  learningData :: learningData
  adaptationRules :: adaptationRules

definition initialGuard :: guard where
  "initialGuard =
     \<lparr>qualityMetrics = config_qualityThresholds,
      learningData = emptyLearningData,
      adaptationRules = \<lparr>enhancementPatterns = [], preferredBehaviors = []\<rparr>\<rparr>"

text \<open>\<open>counts[key] = (counts[key] || 0) + 1\<close> on a dictionary in insertion order.\<close>

fun bump :: "'k \<Rightarrow> ('k \<times> nat) list \<Rightarrow> ('k \<times> nat) list" where
  "bump k [] = [(k, 1)]"
| "bump k ((k', c) # kcs) = (if k = k' then (k', c + 1) # kcs else (k', c) # bump k kcs)"

definition getCommonFailureReasons :: "guard \<Rightarrow> (reason option \<times> nat) list" where
  "getCommonFailureReasons g =
     foldl (\<lambda>reasons entry. bump (entryReason entry) reasons) []
       (failedResponses (learningData g))"

text \<open>\<open>slice(-20)\<close> is the last 20 entries of the success log.\<close>

definition calculatePersonalityStrength :: "guard \<Rightarrow> rat" where
  "calculatePersonalityStrength g =
     (if length (successfulResponses (learningData g)) = 0 then 0
      else let recentSuccesses = lastN 20 (successfulResponses (learningData g))
           in js_div (of_nat (length recentSuccesses)) 20)"

record stats =
  totalProcessed :: nat
  successRate :: rat
  commonFailureReasons :: "(reason option \<times> nat) list"
  personalityStrength :: rat

definition getPersonalityStats :: "guard \<Rightarrow> stats" where
  "getPersonalityStats g =
     \<lparr>totalProcessed = length (successfulResponses (learningData g))
                        + length (failedResponses (learningData g)),
      successRate =
        js_div (of_nat (length (successfulResponses (learningData g))))
          (of_nat (max 1 (length (successfulResponses (learningData g))
                          + length (failedResponses (learningData g))))),
      commonFailureReasons = getCommonFailureReasons g,
      personalityStrength = calculatePersonalityStrength g\<rparr>"

section \<open>Adaptation engine\<close>

definition adaptValidationThresholds :: "stats \<Rightarrow> guard \<Rightarrow> guard" where
  "adaptValidationThresholds st g =
     (let failureRate = js_sub 1 (successRate st);
          q = qualityMetrics g
      in if fl (4 / 10) < failureRate
         then g\<lparr>qualityMetrics := q\<lparr>dogWordRatio := js_mul (dogWordRatio q) (fl (8 / 10)),
                                     emojiRatio := js_mul (emojiRatio q) (fl (8 / 10))\<rparr>\<rparr>
         else if fl (9 / 10) < successRate st
         then g\<lparr>qualityMetrics := q\<lparr>dogWordRatio := js_mul (dogWordRatio q) (fl (11 / 10)),
                                     emojiRatio := js_mul (emojiRatio q) (fl (11 / 10))\<rparr>\<rparr>
         else g)"

text \<open>
  \<open>processed.replace(original, '')\<close>: the first occurrence of the text \<open>original\<close> is
  replaced (the empty text occurs at the start).
\<close>

fun replaceFirst :: "jsstring \<Rightarrow> jsstring \<Rightarrow> jsstring \<Rightarrow> jsstring" where
  "replaceFirst pat rep [] = (if pat = [] then rep else [])"
| "replaceFirst pat rep (c # cs) =
     (if prefix pat (c # cs) then rep @ drop (length pat) (c # cs)
      else c # replaceFirst pat rep cs)"

definition trim :: "jsstring \<Rightarrow> jsstring" where
  "trim s = rev (dropWhile isWhiteSpace (rev (dropWhile isWhiteSpace s)))"

definition analyzeEnhancementPattern :: "jsstring \<Rightarrow> jsstring \<Rightarrow> enhancementPattern" where
  "analyzeEnhancementPattern original processed =
     (let added = trim (replaceFirst original [] processed)
      in if str_includes added (js ''*'') \<and> str_includes added emoji_dog then BehaviorAndEmoji
         else if str_includes added (js ''*'') then BehaviorOnly
         else if str_includes added emoji_dog \<or> str_includes added emoji_dogface
                 \<or> str_includes added emoji_paws then EmojiOnly
         else if prefix emoji_dog added \<or> prefix emoji_dogface added then PrefixEmoji
         else OtherPattern)"

text \<open>
  \<open>Object.entries(counts).sort(([,a], [,b]) => b - a).slice(0, n).map(([k]) => k)\<close>: the
  keys of the \<open>n\<close> largest counts; the sort is stable, so equal counts keep insertion order.
\<close>

definition topKeys :: "nat \<Rightarrow> ('k \<times> nat) list \<Rightarrow> 'k list" where
  "topKeys n counts = map fst (take n (sort_key (\<lambda>kc. - int (snd kc)) counts))"

definition learnEnhancementPatterns :: "guard \<Rightarrow> guard" where
  "learnEnhancementPatterns g =
     (let recent = lastN 50 (successfulResponses (learningData g));
          patternSuccess =
            foldl (\<lambda>counts entry.
                     bump (analyzeEnhancementPattern (originalResponse entry) (processedResponse entry))
                       counts) [] recent;
          bestPatterns = topKeys 3 patternSuccess
      in if bestPatterns \<noteq> []
         then g\<lparr>adaptationRules := (adaptationRules g)\<lparr>enhancementPatterns := bestPatterns\<rparr>\<rparr>
         else g)"

definition adaptBehaviorFrequencies :: "guard \<Rightarrow> guard" where
  "adaptBehaviorFrequencies g =
     (let recent = lastN 30 (successfulResponses (learningData g));
          behaviorCounts =
            foldl (\<lambda>counts entry.
                     foldl (\<lambda>counts' behavior.
                              if str_includes (processedResponse entry) behavior
                              then bump behavior counts' else counts')
                       counts allBehaviors) [] recent;
          topBehaviors = topKeys 5 behaviorCounts
      in if topBehaviors \<noteq> []
         then g\<lparr>adaptationRules := (adaptationRules g)\<lparr>preferredBehaviors := topBehaviors\<rparr>\<rparr>
         else g)"

text \<open>
  \<open>adaptPersonality\<close>; \<open>now\<close> is the clock reading stamped on \<open>lastAdapted\<close>. The
  trigger compares the failure rate, computed as \<open>1 - successRate\<close> in binary64, with
  the configured threshold. The source ends the adaptation with
  \<open>await this.saveLearningData()\<close>, although the method is not declared \<open>async\<close>, the
  only place where JavaScript accepts \<open>await\<close>; saving is outside the model, which
  follows the other statements in their order.
\<close>

definition adaptationTriggers :: "guard \<Rightarrow> bool" where
  "adaptationTriggers g =
     (let st = getPersonalityStats g;
          failureRate = js_sub 1 (successRate st)
      in learning_adaptationThreshold < failureRate \<and> 20 \<le> totalProcessed st)"

definition adaptPersonality :: "nat \<Rightarrow> guard \<Rightarrow> guard" where
  "adaptPersonality now g =
     (if \<not> learning_feedbackLoopEnabled then g
      else let st = getPersonalityStats g;
               failureRate = js_sub 1 (successRate st)
           in if learning_adaptationThreshold < failureRate \<and> 20 \<le> totalProcessed st
              then let g1 = adaptValidationThresholds st g;
                       g2 = learnEnhancementPatterns g1;
                       g3 = adaptBehaviorFrequencies g2
                   in g3\<lparr>learningData := (learningData g3)\<lparr>lastAdapted := Some now\<rparr>\<rparr>
              else g)"

section \<open>Orchestrator\<close>

record decision =
  action :: action
  response :: jsstring
  reason :: "reason option"
  validation :: "validation option"

text \<open>
  \<open>processChatMessage\<close> on two strings. \<open>now\<close> is the clock reading of the learning
  entry and \<open>adaptNow\<close> the one of an adaptation that follows it. The state changes of
  \<open>updateLearningData\<close> happen before its first \<open>await\<close>, so they are in place when the
  success count is tested.
\<close>

definition processChatMessage ::
  "guard \<Rightarrow> draws \<Rightarrow> nat \<Rightarrow> nat \<Rightarrow> jsstring \<Rightarrow> jsstring \<Rightarrow> decision \<times> guard" where
  "processChatMessage g rnd now adaptNow userMessage aiResponse =
     (let userAnalysis = processUserMessage userMessage;
          responseValidation = validateResponse (qualityMetrics g) aiResponse userMessage
      in if shouldRedirect userAnalysis
         then let r = generateFallbackResponse rnd userMessage TRedirect;
                  g1 = g\<lparr>learningData :=
                          updateLearningData now aiResponse r Redirect (redirectReason userAnalysis)
                            (learningData g)\<rparr>
              in (\<lparr>action = Redirect, response = r, reason = redirectReason userAnalysis,
                   validation = None\<rparr>, g1)
         else if \<not> isValid responseValidation
         then let r = attemptResponseFix (qualityMetrics g) rnd aiResponse userMessage;
                  g1 = g\<lparr>learningData :=
                          updateLearningData now aiResponse r FixOrFallback
                            (Some PersonalityInconsistent) (learningData g)\<rparr>
              in (\<lparr>action = FixOrFallback, response = r, reason = Some PersonalityInconsistent,
                   validation = Some responseValidation\<rparr>, g1)
         else let r = enhancedEnhanceResponse (adaptationRules g) rnd aiResponse;
                  g1 = g\<lparr>learningData :=
                          updateLearningData now aiResponse r Enhance (Some PersonalityGood)
                            (learningData g)\<rparr>;
                  g2 = (if length (successfulResponses (learningData g1)) mod 10 = 0
                        then adaptPersonality adaptNow g1 else g1)
              in (\<lparr>action = Enhance, response = r, reason = Some PersonalityGood,
                   validation = None\<rparr>, g2))"

section \<open>Untyped callers\<close>

text \<open>
  JavaScript passes any value where the guard expects a string. A value that is not a
  string has no \<open>toLowerCase\<close> method, and calling it raises a \<open>TypeError\<close>.
  \<open>JObject\<close> stands for an array or any other object.
\<close>

datatype jsvalue = JString jsstring | JUndefined | JNull | JNumber rat | JBoolean bool | JObject

datatype error = TypeError

fun truthyValue :: "jsvalue \<Rightarrow> bool" where
  "truthyValue (JString s) = (s \<noteq> [])"
| "truthyValue JUndefined = False"
| "truthyValue JNull = False"
| "truthyValue (JNumber n) = (n \<noteq> 0)"
| "truthyValue (JBoolean b) = b"
| "truthyValue JObject = True"

text \<open>
  The entry point as JavaScript runs it: \<open>processUserMessage\<close> calls
  \<open>message.toLowerCase()\<close> first, then \<open>validateResponse\<close> calls
  \<open>response.toLowerCase()\<close>; the function has no \<open>try\<close>, so either exception leaves it.
\<close>

fun processChatMessageAny ::
  "guard \<Rightarrow> draws \<Rightarrow> nat \<Rightarrow> nat \<Rightarrow> jsvalue \<Rightarrow> jsvalue \<Rightarrow> error + (decision \<times> guard)" where
  "processChatMessageAny g rnd now adaptNow (JString userMessage) (JString aiResponse) =
     Inr (processChatMessage g rnd now adaptNow userMessage aiResponse)"
| "processChatMessageAny g rnd now adaptNow userMessage aiResponse = Inl TypeError"

text \<open>
  The chat handler's use of the guard, from the point where the model's reply has arrived.
  \<open>lastContent\<close> is the content of the last message of the request and \<open>rawResponse\<close>
  the content of the model's reply. Logging \<open>rawResponse.substring(0, 100)\<close> comes
  before the guard and outside its \<open>try\<close>: a reply that is not a string ends in the
  handler's outer \<open>catch\<close>, which answers with an error message. The guard call sits in
  a \<open>try\<close> of its own, whose \<open>catch\<close> logs and leaves the reply as it is.
\<close>

datatype reply = Content jsstring | ErrorReply

definition chatGuardStep ::
  "guard \<Rightarrow> draws \<Rightarrow> nat \<Rightarrow> nat \<Rightarrow> jsvalue \<Rightarrow> jsvalue \<Rightarrow> reply \<times> guard" where
  "chatGuardStep g rnd now adaptNow lastContent rawResponse =
     (let userMessage = (if truthyValue lastContent then lastContent else JString [])
      in case rawResponse of
           JString raw \<Rightarrow>
             (case processChatMessageAny g rnd now adaptNow userMessage rawResponse of
                Inr (guardResult, g') \<Rightarrow> (Content (response guardResult), g')
              | Inl e \<Rightarrow> (Content raw, g))
         | _ \<Rightarrow> (ErrorReply, g))"

section \<open>Reference readings and example states\<close>

text \<open>
  The strength as the specification words it, on the history of all entries in order of
  arrival: the fraction of the last 20 entries that are successes, over the number of
  entries there are when fewer than 20 exist, and 0 for the empty history. It is compared
  with \<open>calculatePersonalityStrength\<close> below.
\<close>

definition recentSuccessFraction :: "learningEntry list \<Rightarrow> rat" where
  "recentSuccessFraction history =
     (let recent = lastN 20 history
      in if recent = [] then 0
         else js_div (of_nat (length (filter success recent))) (of_nat (length recent)))"

text \<open>
  A guard that has logged ten enhanced replies and then ten repaired ones: 20 entries,
  failure rate one half.
\<close>

definition enhanceCall :: updateCall where
  "enhanceCall = (0, js ''It's sunny.'', js ''It's sunny. *wags tail furiously*'', Enhance,
                  Some PersonalityGood)"

definition repairCall :: updateCall where
  "repairCall = (0, js ''As an AI, I can help.'', emoji_dog @ js '' Woof?'', FixOrFallback,
                 Some PersonalityInconsistent)"

definition halfFailedGuard :: guard where
  "halfFailedGuard =
     initialGuard\<lparr>learningData :=
       runUpdates emptyLearningData (replicate 10 enhanceCall @ replicate 10 repairCall)\<rparr>"



section \<open>The bounded logs\<close>

lemma lastN_length: "length (lastN n xs) = min n (length xs)"
  by (simp add: lastN_def)

lemma lastN_snoc_short: "length xs < n \<Longrightarrow> lastN n (xs @ [x]) = lastN n xs @ [x]"
  by (simp add: lastN_def)

lemma lastN_snoc_full:
  assumes "n \<le> length xs" and "0 < n"
  shows "lastN n (xs @ [x]) = tl (lastN n xs @ [x])"
proof -
  have "drop (Suc (length xs) - n) (xs @ [x]) = drop (Suc (length xs - n)) xs @ [x]"
    using assms by (simp add: Suc_diff_le)
  moreover have "drop (length xs - n) xs \<noteq> []"
    using assms by simp
  then have "tl (drop (length xs - n) xs @ [x]) = drop (Suc (length xs - n)) xs @ [x]"
    by (simp add: drop_Suc tl_drop)
  ultimately show ?thesis
    by (simp add: lastN_def)
qed

lemma callEntry_success: "success (callEntry c) = (fst (snd (snd (snd c))) \<noteq> FixOrFallback)"
  by (cases c) (simp add: mkEntry_def)

lemma applyCall_logs:
  assumes "successfulResponses ld = lastN 100 S" and "failedResponses ld = lastN 100 F"
  shows "successfulResponses (applyCall ld c) =
           lastN 100 (if success (callEntry c) then S @ [callEntry c] else S)
       \<and> failedResponses (applyCall ld c) =
           lastN 100 (if success (callEntry c) then F else F @ [callEntry c])"
proof (cases c)
  case (fields now orig processed act rsn)
  let ?e = "mkEntry now orig processed act rsn"
  show ?thesis
  proof (cases "success ?e")
    case True
    show ?thesis
    proof (cases "length S < 100")
      case True
      with \<open>success ?e\<close> assms fields show ?thesis
        by (simp add: updateLearningData_def Let_def lastN_snoc_short lastN_length)
    next
      case False
      then have "lastN 100 (S @ [?e]) = tl (lastN 100 S @ [?e])"
        by (intro lastN_snoc_full) simp_all
      with False \<open>success ?e\<close> assms fields show ?thesis
        by (simp add: updateLearningData_def Let_def lastN_length)
    qed
  next
    case False
    note nosucc = this
    show ?thesis
    proof (cases "length F < 100")
      case True
      with nosucc assms fields show ?thesis
        by (simp add: updateLearningData_def Let_def lastN_snoc_short lastN_length)
    next
      case False
      then have "lastN 100 (F @ [?e]) = tl (lastN 100 F @ [?e])"
        by (intro lastN_snoc_full) simp_all
      with False nosucc assms fields show ?thesis
        by (simp add: updateLearningData_def Let_def lastN_length)
    qed
  qed
qed

lemma runUpdates_logs:
  "successfulResponses (runUpdates emptyLearningData cs) =
     lastN 100 (filter success (map callEntry cs))
   \<and> failedResponses (runUpdates emptyLearningData cs) =
     lastN 100 (filter (\<lambda>e. \<not> success e) (map callEntry cs))"
proof (induction cs rule: rev_induct)
  case Nil
  show ?case by (simp add: runUpdates_def emptyLearningData_def lastN_def)
next
  case (snoc c cs)
  have step: "runUpdates emptyLearningData (cs @ [c]) = applyCall (runUpdates emptyLearningData cs) c"
    by (simp add: runUpdates_def)
  from applyCall_logs [OF snoc.IH [THEN conjunct1] snoc.IH [THEN conjunct2], of c]
  show ?case
    unfolding step by simp
qed

text \<open>
  C4. Starting from the empty state, after any sequence of \<open>updateLearningData\<close> calls
  neither log is longer than 100 entries, and each log holds exactly the last 100 of the
  entries appended to it, in insertion order (all of them while there are at most 100):
  the oldest entry is the one evicted.
\<close>

theorem updateLearningData_ring_buffer:
  "length (successfulResponses (runUpdates emptyLearningData cs)) \<le> 100
   \<and> length (failedResponses (runUpdates emptyLearningData cs)) \<le> 100
   \<and> successfulResponses (runUpdates emptyLearningData cs)
       = lastN 100 (filter success (map callEntry cs))
   \<and> failedResponses (runUpdates emptyLearningData cs)
       = lastN 100 (filter (\<lambda>e. \<not> success e) (map callEntry cs))"
  using runUpdates_logs [of cs] by (simp add: lastN_length)

section \<open>Lower-casing after a space\<close>

text \<open>
  Lower-casing is not a map over code units: a surrogate pair is one code point, one code
  point can give two, and the sigma looks at its neighbours. What text stands before a
  space still has no influence behind it: a space is no surrogate, and the sigma's scan
  stops at it, since a space is neither cased nor case-ignorable.
\<close>

lemma toLowerCase_examples:
  "toLowerCase (js ''Hello, World!'') = js ''hello, world!''"
  "toLowerCase [0x212A] = js ''k''"
  "toLowerCase [0x130] = [0x69, 0x307]"
  "toLowerCase [0x39F, 0x394, 0x39F, 0x3A3] = [0x3BF, 0x3B4, 0x3BF, 0x3C2]"
  "toLowerCase [0x3A3] = [0x3C3]"
  "toLowerCase [0xD801, 0xDC00] = [0xD801, 0xDC28]"
  "toLowerCase emoji_dog = emoji_dog"
  by code_simp+

lemma codePoints_single_front:
  "\<not> (0xD800 \<le> c \<and> c \<le> 0xDBFF) \<Longrightarrow> codePoints (c # ys) = c # codePoints ys"
  by (cases ys) auto

lemma codePoints_barrier:
  "\<not> (0xD800 \<le> c \<and> c \<le> 0xDBFF) \<Longrightarrow>
   codePoints (xs @ c # ys) = codePoints (xs @ [c]) @ codePoints ys"
proof (induction xs rule: codePoints.induct)
  case 1
  then show ?case by (simp add: codePoints_single_front)
next
  case (2 h)
  then show ?case by (simp add: codePoints_single_front)
next
  case (3 h l cs)
  then show ?case by simp
qed

lemma codePoints_ends_with:
  "\<not> (0xD800 \<le> c \<and> c \<le> 0xDBFF) \<Longrightarrow> \<not> (0xDC00 \<le> c \<and> c \<le> 0xDFFF) \<Longrightarrow>
   \<exists>ps. codePoints (xs @ [c]) = ps @ [c]"
proof (induction xs rule: codePoints.induct)
  case 1
  then show ?case by simp
next
  case (2 h)
  then show ?case by simp
next
  case (3 h l cs)
  then show ?case
    by (cases cs) (auto simp: Cons_eq_append_conv)
qed

lemma meetsCased_barrier:
  "\<not> inRanges b caseIgnorableRanges \<Longrightarrow> \<not> inRanges b casedRanges \<Longrightarrow>
   meetsCased (p @ b # q) = meetsCased p"
  by (induction p) simp_all

lemma lowerFrom_barrier:
  "\<not> inRanges b caseIgnorableRanges \<Longrightarrow> \<not> inRanges b casedRanges \<Longrightarrow>
   lowerFrom (p @ b # q) ys = lowerFrom p ys"
proof (induction ys arbitrary: p)
  case Nil
  then show ?case by simp
next
  case (Cons c ys)
  from Cons.IH [of "c # p"] Cons.prems show ?case
    by (simp add: finalSigma_def meetsCased_barrier)
qed

lemma lowerFrom_append:
  "\<exists>front. lowerFrom p (xs @ ys) = front @ lowerFrom (rev xs @ p) ys"
proof (induction xs arbitrary: p)
  case Nil
  show ?case by simp
next
  case (Cons x xs)
  from Cons.IH [of "x # p"] obtain front
    where "lowerFrom (x # p) (xs @ ys) = front @ lowerFrom (rev xs @ x # p) ys"
    by blast
  then show ?case by simp
qed

lemma space_is_barrier:
  "\<not> inRanges 0x20 caseIgnorableRanges" "\<not> inRanges 0x20 casedRanges"
  by (simp_all add: caseIgnorableRanges_def casedRanges_def)

lemma toLowerCase_after_space:
  "\<exists>front. toLowerCase (a @ 0x20 # r) = front @ toLowerCase r"
proof -
  have split: "codePoints (a @ 0x20 # r) = codePoints (a @ [0x20]) @ codePoints r"
    by (rule codePoints_barrier) simp
  obtain ps where ps: "codePoints (a @ [0x20]) = ps @ [0x20]"
    using codePoints_ends_with [of "0x20" a] by auto
  obtain front where
    "lowerFrom [] ((ps @ [0x20]) @ codePoints r)
       = front @ lowerFrom (rev (ps @ [0x20]) @ []) (codePoints r)"
    using lowerFrom_append [of "[]" "ps @ [0x20]" "codePoints r"] by blast
  moreover have "lowerFrom (rev (ps @ [0x20]) @ []) (codePoints r) = lowerFrom [] (codePoints r)"
    using lowerFrom_barrier [OF space_is_barrier, of "[]" "rev ps" "codePoints r"] by simp
  ultimately have "lowerFrom [] (codePoints (a @ 0x20 # r)) = front @ lowerFrom [] (codePoints r)"
    by (simp add: split ps)
  then have "toLowerCase (a @ 0x20 # r)
      = concat (map encodeCodePoint front) @ toLowerCase r"
    by (simp add: toLowerCase_def)
  then show ?thesis by blast
qed

lemma dogIntros_end_with_space:
  "intro \<in> set dogIntros \<Longrightarrow> \<exists>a. intro = a @ [0x20]"
  by (auto simp: dogIntros_def js_def emoji_dog_def emoji_dogface_def emoji_paws_def
      intro: exI [where x = "butlast intro"])

section \<open>Validity verdict\<close>

lemma str_includes_append_left: "str_includes s t \<Longrightarrow> str_includes (a @ s) t"
  unfolding str_includes_def by (metis sublist_append)

lemma isValid_validateResponse:
  "isValid (validateResponse q r u) =
     (\<not> list_ex (\<lambda>phrase. str_includes (toLowerCase r) (toLowerCase phrase)) avoidPhrases
      \<and> minLength q \<le> length r \<and> length r \<le> maxLength q)"
  by (simp add: validateResponse_def Let_def)

text \<open>
  C1. \<open>validateResponse\<close> returns \<open>isValid = true\<close> exactly when no forbidden phrase
  occurs in the lower-cased response and the length of the response (in code units) lies
  in \<open>[minLength, maxLength]\<close>. The two ratio thresholds have no influence on the
  verdict, whatever their values. The score carries the two ratios, the share of the
  white-space separated words of the lower-cased text that contain a dog word and the
  number of emoji code points per word, and each is listed as an issue exactly when it is
  below its threshold.
\<close>

theorem validateResponse_verdict:
  "isValid (validateResponse q r u) =
     (\<not> (\<exists>phrase \<in> set avoidPhrases. str_includes (toLowerCase r) (toLowerCase phrase))
      \<and> minLength q \<le> length r \<and> length r \<le> maxLength q)
   \<and> isValid (validateResponse (q\<lparr>dogWordRatio := d, emojiRatio := e\<rparr>) r u)
       = isValid (validateResponse q r u)
   \<and> (DogRatioTooLow (dogRatio (score (validateResponse q r u))) (dogWordRatio q)
         \<in> set (issues (validateResponse q r u)))
       = (dogRatio (score (validateResponse q r u)) < dogWordRatio q)
   \<and> (EmojiRatioTooLow (scoreEmojiRatio (score (validateResponse q r u))) (emojiRatio q)
         \<in> set (issues (validateResponse q r u)))
       = (scoreEmojiRatio (score (validateResponse q r u)) < emojiRatio q)
   \<and> dogRatio (score (validateResponse q r u))
       = js_div
           (of_nat (length (filter
              (\<lambda>word. list_ex (\<lambda>dogWord. str_includes (toLowerCase word) (toLowerCase dogWord))
                       dogWords)
              (splitWhiteSpace (toLowerCase r)))))
           (of_nat (max 1 (length (splitWhiteSpace (toLowerCase r)))))
   \<and> scoreEmojiRatio (score (validateResponse q r u))
       = js_div (of_nat (emojiCount (toLowerCase r)))
           (of_nat (max 1 (length (splitWhiteSpace (toLowerCase r)))))"
proof -
  have verdict: "isValid (validateResponse q r u) =
     (\<not> (\<exists>phrase \<in> set avoidPhrases. str_includes (toLowerCase r) (toLowerCase phrase))
      \<and> minLength q \<le> length r \<and> length r \<le> maxLength q)"
    by (simp add: isValid_validateResponse list_ex_iff)
  have indep: "isValid (validateResponse (q\<lparr>dogWordRatio := d, emojiRatio := e\<rparr>) r u)
       = isValid (validateResponse q r u)"
    by (simp add: isValid_validateResponse)
  have dog: "(DogRatioTooLow (dogRatio (score (validateResponse q r u))) (dogWordRatio q)
         \<in> set (issues (validateResponse q r u)))
       = (dogRatio (score (validateResponse q r u)) < dogWordRatio q)"
    by (simp add: validateResponse_def Let_def getValidationIssues_def)
  have emo: "(EmojiRatioTooLow (scoreEmojiRatio (score (validateResponse q r u))) (emojiRatio q)
         \<in> set (issues (validateResponse q r u)))
       = (scoreEmojiRatio (score (validateResponse q r u)) < emojiRatio q)"
    by (simp add: validateResponse_def Let_def getValidationIssues_def)
  have dogv: "dogRatio (score (validateResponse q r u))
       = js_div
           (of_nat (length (filter
              (\<lambda>word. list_ex (\<lambda>dogWord. str_includes (toLowerCase word) (toLowerCase dogWord))
                       dogWords)
              (splitWhiteSpace (toLowerCase r)))))
           (of_nat (max 1 (length (splitWhiteSpace (toLowerCase r)))))"
    by (simp add: validateResponse_def Let_def)
  have emov: "scoreEmojiRatio (score (validateResponse q r u))
       = js_div (of_nat (emojiCount (toLowerCase r)))
           (of_nat (max 1 (length (splitWhiteSpace (toLowerCase r)))))"
    by (simp add: validateResponse_def Let_def)
  from verdict indep dog emo dogv emov show ?thesis by blast
qed

text \<open>
  An instance: a reply without any dog word or emoji is valid, and both ratios are
  reported as too low.
\<close>

lemma validateResponse_plain_reply:
  "isValid (validateResponse config_qualityThresholds (js ''It's sunny and warm today.'') [])
   \<and> issues (validateResponse config_qualityThresholds (js ''It's sunny and warm today.'') [])
       = [MissingRequiredElements, DogRatioTooLow 0 (fl (8 / 100)), EmojiRatioTooLow 0 (fl (15 / 1000))]"
  by code_simp

text \<open>
  A reply with dog words: three of its five words count, and one emoji stands against
  five words.
\<close>

lemma validateResponse_dog_reply:
  "dogRatio (score (validateResponse config_qualityThresholds
               (emoji_dog @ js '' Woof! I love dogs!'') [])) = fl (3 / 5)"
  "scoreEmojiRatio (score (validateResponse config_qualityThresholds
               (emoji_dog @ js '' Woof! I love dogs!'') [])) = fl (1 / 5)"
  by code_simp+

text \<open>
  Lower-casing goes beyond ASCII: the Kelvin sign U+212A becomes \<open>k\<close>, so this reply
  contains \<open>i am grok\<close>.
\<close>

lemma validateResponse_kelvin_sign:
  "\<not> isValid (validateResponse config_qualityThresholds
           (js ''I am gro'' @ [0x212A] @ js '', a helpful bot'') [])"
  by code_simp

section \<open>Threat priority\<close>

lemma redirectTopics_keys_nonempty: "k \<in> set (map fst redirectTopics) \<Longrightarrow> k \<noteq> []"
  by (auto simp: redirectTopics_def js_def)

lemma find_SomeD: "find P xs = Some k \<Longrightarrow> k \<in> set xs \<and> P k"
  by (induction xs) (auto split: if_splits)

lemma truthy_find_topic:
  "truthy (find P (map fst redirectTopics)) = list_ex P (map fst redirectTopics)"
proof (cases "find P (map fst redirectTopics)")
  case None
  then have "\<not> list_ex P (map fst redirectTopics)"
    by (simp add: find_None_iff list_ex_iff)
  with None show ?thesis by simp
next
  case (Some k)
  then have "k \<in> set (map fst redirectTopics)" and "P k"
    using find_SomeD [of P "map fst redirectTopics" k] by blast+
  with Some redirectTopics_keys_nonempty [of k] show ?thesis
    by (auto simp: list_ex_iff)
qed

lemma shouldRedirect_iff:
  "shouldRedirect (processUserMessage u) =
     (list_ex (\<lambda>threat. str_includes (toLowerCase u) (toLowerCase threat)) overrideAttempts
      \<or> list_ex (\<lambda>topic. str_includes (toLowerCase u) (toLowerCase topic)) (map fst redirectTopics))"
  by (simp add: processUserMessage_def Let_def truthy_find_topic)

lemma redirectReason_override:
  "list_ex (\<lambda>threat. str_includes (toLowerCase u) (toLowerCase threat)) overrideAttempts
   \<Longrightarrow> redirectReason (processUserMessage u) = Some PersonalityOverride"
  by (simp add: processUserMessage_def Let_def)

lemma redirectReason_topic:
  "\<not> list_ex (\<lambda>threat. str_includes (toLowerCase u) (toLowerCase threat)) overrideAttempts
   \<Longrightarrow> list_ex (\<lambda>topic. str_includes (toLowerCase u) (toLowerCase topic)) (map fst redirectTopics)
   \<Longrightarrow> redirectReason (processUserMessage u) = Some RedirectTopic"
  by (simp add: processUserMessage_def Let_def truthy_find_topic)

lemma processChatMessage_redirect_branch:
  "shouldRedirect (processUserMessage u) \<Longrightarrow>
   fst (processChatMessage g rnd now adaptNow u raw) =
     \<lparr>action = Redirect, response = generateFallbackResponse rnd u TRedirect,
      reason = redirectReason (processUserMessage u), validation = None\<rparr>"
  by (simp add: processChatMessage_def Let_def)

text \<open>
  C2. When the lower-cased user message contains an override phrase or a redirect-topic
  key, \<open>processChatMessage\<close> returns the action \<open>redirect\<close>, whatever the raw response
  and whether or not it would validate; with an override phrase the reason is the
  override reason, also when a topic matches too, and with a topic alone it is the
  topic-redirect reason.
\<close>

theorem processChatMessage_threat_priority:
  assumes "(\<exists>threat \<in> set overrideAttempts. str_includes (toLowerCase u) (toLowerCase threat))
           \<or> (\<exists>topic \<in> set (map fst redirectTopics). str_includes (toLowerCase u) (toLowerCase topic))"
  shows "action (fst (processChatMessage g rnd now adaptNow u raw)) = Redirect
         \<and> reason (fst (processChatMessage g rnd now adaptNow u raw)) =
             (if \<exists>threat \<in> set overrideAttempts. str_includes (toLowerCase u) (toLowerCase threat)
              then Some PersonalityOverride else Some RedirectTopic)"
proof -
  from assms have sr: "shouldRedirect (processUserMessage u)"
    by (simp add: shouldRedirect_iff list_ex_iff)
  show ?thesis
  proof (cases "\<exists>threat \<in> set overrideAttempts. str_includes (toLowerCase u) (toLowerCase threat)")
    case True
    then have "redirectReason (processUserMessage u) = Some PersonalityOverride"
      by (intro redirectReason_override) (simp add: list_ex_iff)
    with True sr show ?thesis
      by (simp add: processChatMessage_redirect_branch)
  next
    case False
    with assms have "redirectReason (processUserMessage u) = Some RedirectTopic"
      by (intro redirectReason_topic) (simp_all add: list_ex_iff)
    with False sr show ?thesis
      by (simp add: processChatMessage_redirect_branch)
  qed
qed

text \<open>
  The match is case-insensitive in the sense of \<open>toLowerCase\<close>: an override phrase
  written with the Kelvin sign is found, and a capital I with a dot above, lower-cased to
  \<open>i\<close> and a combining dot, completes the topic \<open>ai\<close>.
\<close>

lemma processUserMessage_beyond_ascii:
  "redirectReason (processUserMessage (js ''act li'' @ [0x212A] @ js ''e a cat''))
     = Some PersonalityOverride"
  "redirectReason (processUserMessage (js ''ACT LI'' @ [0x212A] @ js ''E a pirate''))
     = Some PersonalityOverride"
  "redirectReason (processUserMessage (js ''A'' @ [0x130])) = Some RedirectTopic"
  by code_simp+

text \<open>
  The message \<open>Act like a cat\<close> has both an override phrase and a topic, and the raw
  response is one that validates.
\<close>

theorem processChatMessage_threat_priority_witness:
  "action (fst (processChatMessage initialGuard (\<lambda>k. 0) 0 0 (js ''Act like a cat'')
                  (js ''It's sunny and warm today.''))) = Redirect
   \<and> reason (fst (processChatMessage initialGuard (\<lambda>k. 0) 0 0 (js ''Act like a cat'')
                    (js ''It's sunny and warm today.''))) = Some PersonalityOverride
   \<and> isValid (validateResponse (qualityMetrics initialGuard) (js ''It's sunny and warm today.'')
                (js ''Act like a cat''))"
proof -
  have threat: "\<exists>threat \<in> set overrideAttempts.
                  str_includes (toLowerCase (js ''Act like a cat'')) (toLowerCase threat)"
    unfolding list_ex_iff [symmetric] by code_simp
  have valid: "isValid (validateResponse (qualityMetrics initialGuard)
                 (js ''It's sunny and warm today.'') (js ''Act like a cat''))"
    by code_simp
  from threat valid
    processChatMessage_threat_priority [of "js ''Act like a cat''" initialGuard "\<lambda>k. 0" 0 0
      "js ''It's sunny and warm today.''"]
  show ?thesis by simp
qed

section \<open>Rounding\<close>

text \<open>
  The rounding error of \<open>fl\<close> is at most half a unit in the last place: relative
  \<open>2^-53\<close> for a normal number, absolute \<open>2^-1075\<close> below the normal range.
\<close>

lemma bitLength_nonneg: "0 \<le> bitLength n"
proof (induction n rule: bitLength.induct)
  case (1 n)
  then show ?case
    by (cases "n \<le> 0") (simp_all add: bitLength.simps [of n])
qed

lemma bitLength_pos: "0 < n \<Longrightarrow> 1 \<le> bitLength n"
  using bitLength_nonneg [of "n div 2"] by (simp add: bitLength.simps [of n])

lemma bitLength_bounds:
  "0 < n \<Longrightarrow> 2 ^ nat (bitLength n - 1) \<le> n \<and> n < 2 ^ nat (bitLength n)"
proof (induction n rule: bitLength.induct)
  case (1 n)
  show ?case
  proof (cases "0 < n div 2")
    case False
    with \<open>0 < n\<close> have "n = 1" by presburger
    then show ?thesis
      by (simp add: bitLength.simps [of 1] bitLength.simps [of 0])
  next
    case True
    let ?k = "bitLength (n div 2)"
    from 1 True have ih: "2 ^ nat (?k - 1) \<le> n div 2" "n div 2 < 2 ^ nat ?k"
      by simp_all
    from True have k1: "1 \<le> ?k" by (rule bitLength_pos)
    have bl: "bitLength n = 1 + ?k"
      using \<open>0 < n\<close> by (simp add: bitLength.simps [of n])
    have km: "nat ?k = Suc (nat (?k - 1))" and e2: "nat (1 + ?k) = Suc (nat ?k)"
      using k1 by simp_all
    have "2 * 2 ^ nat (?k - 1) \<le> n"
      using ih(1) by presburger
    then have lo: "2 ^ nat ?k \<le> n"
      by (simp add: km)
    have "n < 2 * 2 ^ nat ?k"
      using ih(2) by presburger
    then have hi: "n < 2 ^ nat (1 + ?k)"
      by (simp add: e2)
    from lo hi show ?thesis
      by (simp add: bl)
  qed
qed

lemma pow2_powi: "pow2 e = 2 powi e"
  by (simp add: pow2_def power_int_def inverse_eq_divide power_one_over)

lemma pow2_pos: "0 < pow2 e"
  by (simp add: pow2_def)

lemma pow2_add: "pow2 (a + b) = pow2 a * pow2 b"
  by (simp add: pow2_powi power_int_add)

lemma pow2_nat: "0 \<le> e \<Longrightarrow> pow2 e = 2 ^ nat e"
  by (simp add: pow2_def)

lemma ilog2_lower:
  assumes "0 < x"
  shows "pow2 (ilog2 x) \<le> x"
proof -
  obtain p q where pq: "quotient_of x = (p, q)"
    by (cases "quotient_of x")
  then have q0: "0 < q" and x: "x = of_int p / of_int q"
    by (simp_all add: quotient_of_denom_pos quotient_of_div)
  with assms have p0: "0 < p"
    by (simp add: zero_less_divide_iff)
  let ?d = "bitLength p - bitLength q"
  show ?thesis
  proof (cases "pow2 ?d \<le> x")
    case True
    then show ?thesis
      by (simp add: ilog2_def pq)
  next
    case False
    have bp: "(2::rat) ^ nat (bitLength p - 1) \<le> of_int p"
      using bitLength_bounds [OF p0] by (metis of_int_le_iff of_int_numeral of_int_power)
    have bq: "of_int q < (2::rat) ^ nat (bitLength q)"
      using bitLength_bounds [OF q0] by (metis of_int_less_iff of_int_numeral of_int_power)
    have "pow2 (?d - 1) = pow2 (bitLength p - 1) * pow2 (- bitLength q)"
      using pow2_add [of "bitLength p - 1" "- bitLength q"] by (simp add: algebra_simps)
    also have "\<dots> = 2 ^ nat (bitLength p - 1) / 2 ^ nat (bitLength q)"
      using bitLength_pos [OF p0] bitLength_pos [OF q0] by (simp add: pow2_def)
    also have "\<dots> \<le> of_int p / 2 ^ nat (bitLength q)"
      using bp by (simp add: divide_right_mono)
    also have "\<dots> \<le> of_int p / of_int q"
      using bq q0 p0 by (simp add: frac_le)
    also have "\<dots> = x"
      by (simp only: x)
    finally have "pow2 (?d - 1) \<le> x" .
    with False show ?thesis
      by (simp add: ilog2_def pq)
  qed
qed

lemma roundHalfEven_upper: "of_int (roundHalfEven q) \<le> q + 1 / 2"
  unfolding roundHalfEven_def Let_def by (auto simp: not_less) linarith+

lemma fl_upper:
  assumes "0 < x"
  shows "fl x \<le> x + x / 2 ^ 53 + 1 / 2 ^ 1075"
proof -
  let ?e = "max (ilog2 x) (- 1022)"
  let ?u = "pow2 (?e - 52)"
  have u0: "0 < ?u" by (rule pow2_pos)
  have flx: "fl x = of_int (roundHalfEven (x / ?u)) * ?u"
    using assms by (simp add: fl_def Let_def)
  have "of_int (roundHalfEven (x / ?u)) * ?u \<le> (x / ?u + 1 / 2) * ?u"
    using roundHalfEven_upper [of "x / ?u"] u0 by (simp only: mult_right_mono less_imp_le)
  also have "\<dots> = x + ?u / 2"
    using u0 by (simp add: field_simps)
  finally have b1: "fl x \<le> x + ?u / 2"
    by (simp only: flx)
  have half: "?u / 2 = pow2 ?e / 2 ^ 53"
    using pow2_add [of ?e "- 52"] by (simp add: pow2_def)
  have "pow2 ?e \<le> x + 1 / 2 ^ 1022"
  proof (cases "- 1022 \<le> ilog2 x")
    case True
    then have "pow2 ?e = pow2 (ilog2 x)" by (simp add: max_def)
    with ilog2_lower [OF assms] show ?thesis by simp
  next
    case False
    then have "pow2 ?e = 1 / 2 ^ 1022" by (simp add: max_def pow2_def)
    with assms show ?thesis by simp
  qed
  then have "pow2 ?e / 2 ^ 53 \<le> (x + 1 / 2 ^ 1022) / 2 ^ 53"
    by (simp only: divide_right_mono zero_le_numeral zero_le_power)
  also have "\<dots> = x / 2 ^ 53 + 1 / 2 ^ 1075"
    by (simp add: add_divide_distrib)
  finally have "?u / 2 \<le> x / 2 ^ 53 + 1 / 2 ^ 1075"
    by (simp only: half)
  with b1 show ?thesis by linarith
qed


lemma randomIndex_less:
  assumes "0 \<le> u" and "u \<le> 1 - 1 / 2 ^ 53" and "0 < n"
  shows "randomIndex u n < n"
proof -
  let ?x = "u * of_nat n"
  have n1: "(1::rat) \<le> of_nat n" using assms(3) by simp
  have "fl ?x < of_nat n"
  proof (cases "?x = 0")
    case True
    then show ?thesis using assms(3) by (simp add: fl_def)
  next
    case False
    then have "u \<noteq> 0" by auto
    with assms(1) have "0 < u" by simp
    with assms(3) have x0: "0 < ?x" by simp
    have xn: "?x \<le> of_nat n - of_nat n / 2 ^ 53"
      using mult_right_mono [OF assms(2), of "of_nat n"] by (simp add: algebra_simps)
    have "fl ?x \<le> ?x + ?x / 2 ^ 53 + 1 / 2 ^ 1075"
      using x0 by (rule fl_upper)
    also have "\<dots> \<le> (of_nat n - of_nat n / 2 ^ 53) + (of_nat n - of_nat n / 2 ^ 53) / 2 ^ 53 + 1 / 2 ^ 1075"
      using xn by (simp add: divide_right_mono add_mono)
    also have "\<dots> = of_nat n - of_nat n / 2 ^ 106 + 1 / 2 ^ 1075"
      by (simp add: field_simps)
    also have "\<dots> < of_nat n"
    proof -
      have "(1::rat) / 2 ^ 1075 < 1 / 2 ^ 106" by simp
      also have "\<dots> \<le> of_nat n / 2 ^ 106" using n1 by (simp add: divide_right_mono)
      finally show ?thesis by simp
    qed
    finally show ?thesis .
  qed
  then have "\<lfloor>fl ?x\<rfloor> < int n"
    by (simp add: floor_less_iff)
  then show ?thesis
    using assms(3) by (simp add: randomIndex_def js_mul_def)
qed





section \<open>Random draws\<close>

lemma unitDraws_index:
  "unitDraws rnd \<Longrightarrow> xs \<noteq> [] \<Longrightarrow> randomIndex (rnd k) (length xs) < length xs"
  by (simp add: unitDraws_def randomIndex_less)

lemma unitDraws_later: "unitDraws rnd \<Longrightarrow> unitDraws (later n rnd)"
  by (simp add: unitDraws_def later_def)

lemma unitDraws_zero: "unitDraws (\<lambda>k. 0)"
  by (simp add: unitDraws_def)

section \<open>Repair\<close>

lemma length_dogIntros: "length dogIntros = 4"
  by (simp add: dogIntros_def)

lemma length_responseTemplates_confused: "length responseTemplates_confused = 4"
  by (simp add: responseTemplates_confused_def)

lemma generateFallbackResponse_confused:
  "generateFallbackResponse rnd u TConfused =
     responseTemplates_confused ! randomIndex (rnd 0) (length responseTemplates_confused)"
  by (simp add: generateFallbackResponse_def getRandomTemplate_def Let_def
      responseTemplates_confused_def)

lemma forbidden_after_intro:
  assumes "list_ex (\<lambda>phrase. str_includes (toLowerCase raw) (toLowerCase phrase)) avoidPhrases"
    and "intro \<in> set dogIntros"
  shows "\<not> isValid (validateResponse q (intro @ raw) u)"
proof -
  from assms(1) obtain phrase where "phrase \<in> set avoidPhrases"
    and inc: "str_includes (toLowerCase raw) (toLowerCase phrase)"
    by (auto simp: list_ex_iff)
  from assms(2) obtain a where "intro = a @ [0x20]"
    using dogIntros_end_with_space by blast
  then obtain front where "toLowerCase (intro @ raw) = front @ toLowerCase raw"
    using toLowerCase_after_space [of a raw] by auto
  with inc have "str_includes (toLowerCase (intro @ raw)) (toLowerCase phrase)"
    by (simp add: str_includes_append_left)
  with \<open>phrase \<in> set avoidPhrases\<close>
  have "list_ex (\<lambda>phrase. str_includes (toLowerCase (intro @ raw)) (toLowerCase phrase)) avoidPhrases"
    by (auto simp: list_ex_iff)
  then show ?thesis
    by (simp add: isValid_validateResponse)
qed

lemma attemptResponseFix_cases:
  "attemptResponseFix q rnd r u =
     (if isValid (validateResponse q (dogIntros ! randomIndex (rnd 0) (length dogIntros) @ r) u)
      then dogIntros ! randomIndex (rnd 0) (length dogIntros) @ r
      else responseTemplates_confused ! randomIndex (rnd 1) (length responseTemplates_confused))"
  by (simp add: attemptResponseFix_def Let_def generateFallbackResponse_confused later_def)

text \<open>
  C6. When the user message matches no override phrase and no topic key and the raw
  response contains a forbidden phrase, \<open>processChatMessage\<close> takes the repair branch
  and returns what \<open>attemptResponseFix\<close> returns. That function draws one
  introduction, prepends it and validates the result once: a text that validates with
  the introduction in front comes back with it. Here the prepended text does not
  validate, since the forbidden phrase is still in it, and the response is the confused
  template chosen by the next draw. Nothing is prepended or validated a second time.
\<close>

theorem processChatMessage_repair_falls_back:
  assumes "\<not> (\<exists>threat \<in> set overrideAttempts. str_includes (toLowerCase u) (toLowerCase threat))"
    and "\<not> (\<exists>topic \<in> set (map fst redirectTopics). str_includes (toLowerCase u) (toLowerCase topic))"
    and "\<exists>phrase \<in> set avoidPhrases. str_includes (toLowerCase raw) (toLowerCase phrase)"
    and "unitDraws rnd"
  shows "action (fst (processChatMessage g rnd now adaptNow u raw)) = FixOrFallback
         \<and> dogIntros ! randomIndex (rnd 0) (length dogIntros) \<in> set dogIntros
         \<and> \<not> isValid (validateResponse (qualityMetrics g)
                         (dogIntros ! randomIndex (rnd 0) (length dogIntros) @ raw) u)
         \<and> response (fst (processChatMessage g rnd now adaptNow u raw))
             = responseTemplates_confused ! randomIndex (rnd 1) (length responseTemplates_confused)
         \<and> response (fst (processChatMessage g rnd now adaptNow u raw)) \<in> set responseTemplates_confused
         \<and> response (fst (processChatMessage g rnd now adaptNow u raw))
             = attemptResponseFix (qualityMetrics g) rnd raw u
         \<and> (\<forall>r. isValid (validateResponse (qualityMetrics g)
                          (dogIntros ! randomIndex (rnd 0) (length dogIntros) @ r) u) \<longrightarrow>
                  attemptResponseFix (qualityMetrics g) rnd r u
                    = dogIntros ! randomIndex (rnd 0) (length dogIntros) @ r)
         \<and> (\<forall>r. \<not> isValid (validateResponse (qualityMetrics g)
                          (dogIntros ! randomIndex (rnd 0) (length dogIntros) @ r) u) \<longrightarrow>
                  attemptResponseFix (qualityMetrics g) rnd r u
                    = responseTemplates_confused
                        ! randomIndex (rnd 1) (length responseTemplates_confused))"
proof -
  from assms(1,2) have nored: "\<not> shouldRedirect (processUserMessage u)"
    by (simp add: shouldRedirect_iff list_ex_iff)
  from assms(3) have forb: "list_ex (\<lambda>phrase. str_includes (toLowerCase raw) (toLowerCase phrase)) avoidPhrases"
    by (simp add: list_ex_iff)
  then have invalid: "\<not> isValid (validateResponse (qualityMetrics g) raw u)"
    by (simp add: isValid_validateResponse)
  have i0: "randomIndex (rnd 0) (length dogIntros) < length dogIntros"
    using assms(4) by (intro unitDraws_index) (simp_all add: dogIntros_def)
  then have intro: "dogIntros ! randomIndex (rnd 0) (length dogIntros) \<in> set dogIntros"
    by (rule nth_mem)
  have fixed: "\<not> isValid (validateResponse (qualityMetrics g)
                         (dogIntros ! randomIndex (rnd 0) (length dogIntros) @ raw) u)"
    using forb intro by (rule forbidden_after_intro)
  have branch: "fst (processChatMessage g rnd now adaptNow u raw) =
      \<lparr>action = FixOrFallback,
       response = attemptResponseFix (qualityMetrics g) rnd raw u,
       reason = Some PersonalityInconsistent,
       validation = Some (validateResponse (qualityMetrics g) raw u)\<rparr>"
    using nored invalid by (simp add: processChatMessage_def Let_def)
  have repaired: "attemptResponseFix (qualityMetrics g) rnd raw u =
      responseTemplates_confused ! randomIndex (rnd 1) (length responseTemplates_confused)"
    using fixed by (simp add: attemptResponseFix_cases)
  have i1: "randomIndex (rnd 1) (length responseTemplates_confused) < length responseTemplates_confused"
    using assms(4) by (intro unitDraws_index) (simp_all add: responseTemplates_confused_def)
  then have tmpl: "responseTemplates_confused ! randomIndex (rnd 1) (length responseTemplates_confused)
      \<in> set responseTemplates_confused"
    by (rule nth_mem)
  have act: "action (fst (processChatMessage g rnd now adaptNow u raw)) = FixOrFallback"
    and resp: "response (fst (processChatMessage g rnd now adaptNow u raw))
      = attemptResponseFix (qualityMetrics g) rnd raw u"
    by (simp_all add: branch)
  have pos: "\<forall>r. isValid (validateResponse (qualityMetrics g)
                          (dogIntros ! randomIndex (rnd 0) (length dogIntros) @ r) u) \<longrightarrow>
                  attemptResponseFix (qualityMetrics g) rnd r u
                    = dogIntros ! randomIndex (rnd 0) (length dogIntros) @ r"
    by (simp add: attemptResponseFix_cases)
  have neg: "\<forall>r. \<not> isValid (validateResponse (qualityMetrics g)
                          (dogIntros ! randomIndex (rnd 0) (length dogIntros) @ r) u) \<longrightarrow>
                  attemptResponseFix (qualityMetrics g) rnd r u
                    = responseTemplates_confused
                        ! randomIndex (rnd 1) (length responseTemplates_confused)"
    by (simp add: attemptResponseFix_cases)
  from act intro fixed resp repaired tmpl pos neg show ?thesis
    by (simp only: simp_thms)
qed

theorem processChatMessage_repair_falls_back_witness:
  "action (fst (processChatMessage initialGuard (\<lambda>k. 0) 0 0 (js ''Tell me about quantum physics'')
                  (js ''As an AI language model, quantum physics involves...''))) = FixOrFallback
   \<and> response (fst (processChatMessage initialGuard (\<lambda>k. 0) 0 0 (js ''Tell me about quantum physics'')
                      (js ''As an AI language model, quantum physics involves...'')))
       = emoji_dog @ js '' Woof? I got distracted by a squirrel! Can you say that again? '' @ emoji_chipmunk
   \<and> \<not> isValid (validateResponse (qualityMetrics initialGuard)
             (emoji_dog @ js '' Woof woof! As an AI language model, quantum physics involves...'')
             (js ''Tell me about quantum physics''))
   \<and> \<not> isValid (validateResponse (qualityMetrics initialGuard) (js ''Hi!'')
             (js ''Tell me about quantum physics''))
   \<and> attemptResponseFix (qualityMetrics initialGuard) (\<lambda>k. 0) (js ''Hi!'')
         (js ''Tell me about quantum physics'')
       = emoji_dog @ js '' Woof woof! Hi!''"
proof -
  have h1: "\<not> (\<exists>threat \<in> set overrideAttempts.
                 str_includes (toLowerCase (js ''Tell me about quantum physics'')) (toLowerCase threat))"
    unfolding list_ex_iff [symmetric] by code_simp
  have h2: "\<not> (\<exists>topic \<in> set (map fst redirectTopics).
                 str_includes (toLowerCase (js ''Tell me about quantum physics'')) (toLowerCase topic))"
    unfolding list_ex_iff [symmetric] by code_simp
  have h3: "\<exists>phrase \<in> set avoidPhrases.
              str_includes (toLowerCase (js ''As an AI language model, quantum physics involves...''))
                (toLowerCase phrase)"
    unfolding list_ex_iff [symmetric] by code_simp
  have i0: "dogIntros ! randomIndex 0 (length dogIntros) = emoji_dog @ js '' Woof woof! ''"
    by (simp add: dogIntros_def randomIndex_def js_mul_def fl_def)
  have t0: "responseTemplates_confused ! randomIndex 0 (length responseTemplates_confused)
              = emoji_dog @ js '' Woof? I got distracted by a squirrel! Can you say that again? ''
                @ emoji_chipmunk"
    by (simp add: responseTemplates_confused_def randomIndex_def js_mul_def fl_def)
  have short: "\<not> isValid (validateResponse (qualityMetrics initialGuard) (js ''Hi!'')
             (js ''Tell me about quantum physics''))"
    by (simp add: isValid_validateResponse initialGuard_def config_qualityThresholds_def js_def)
  have long: "isValid (validateResponse (qualityMetrics initialGuard)
             ((emoji_dog @ js '' Woof woof! '') @ js ''Hi!'') (js ''Tell me about quantum physics''))"
    by code_simp
  have cat1: "(emoji_dog @ js '' Woof woof! '')
                @ js ''As an AI language model, quantum physics involves...''
              = emoji_dog @ js '' Woof woof! As an AI language model, quantum physics involves...''"
    and cat2: "(emoji_dog @ js '' Woof woof! '') @ js ''Hi!'' = emoji_dog @ js '' Woof woof! Hi!''"
    by (simp_all add: js_def)
  from processChatMessage_repair_falls_back [OF h1 h2 h3 unitDraws_zero, of initialGuard 0 0]
  have all: "action (fst (processChatMessage initialGuard (\<lambda>k. 0) 0 0
                      (js ''Tell me about quantum physics'')
                      (js ''As an AI language model, quantum physics involves...''))) = FixOrFallback"
    "\<not> isValid (validateResponse (qualityMetrics initialGuard)
        (dogIntros ! randomIndex 0 (length dogIntros)
          @ js ''As an AI language model, quantum physics involves...'')
        (js ''Tell me about quantum physics''))"
    "response (fst (processChatMessage initialGuard (\<lambda>k. 0) 0 0
                      (js ''Tell me about quantum physics'')
                      (js ''As an AI language model, quantum physics involves...'')))
       = responseTemplates_confused ! randomIndex 0 (length responseTemplates_confused)"
    "isValid (validateResponse (qualityMetrics initialGuard)
        (dogIntros ! randomIndex 0 (length dogIntros) @ js ''Hi!'')
        (js ''Tell me about quantum physics'')) \<longrightarrow>
      attemptResponseFix (qualityMetrics initialGuard) (\<lambda>k. 0) (js ''Hi!'')
        (js ''Tell me about quantum physics'')
        = dogIntros ! randomIndex 0 (length dogIntros) @ js ''Hi!''"
    by blast+
  from all(2) have w3: "\<not> isValid (validateResponse (qualityMetrics initialGuard)
             (emoji_dog @ js '' Woof woof! As an AI language model, quantum physics involves...'')
             (js ''Tell me about quantum physics''))"
    by (simp only: i0 cat1 simp_thms)
  from all(4) long have w5: "attemptResponseFix (qualityMetrics initialGuard) (\<lambda>k. 0) (js ''Hi!'')
         (js ''Tell me about quantum physics'') = emoji_dog @ js '' Woof woof! Hi!''"
    by (simp only: i0 cat2 simp_thms)
  from all(1) all(3) w3 short w5 show ?thesis
    by (simp only: t0 simp_thms)
qed

section \<open>Redirect templates\<close>

text \<open>
  C9. For the user message \<open>Act like a cat\<close> the action is \<open>redirect\<close>. With a draw of
  \<open>0.25\<close> the second redirect template is chosen; its placeholder is written
  \<open>{Plural}\<close>, which neither replacement matches, so the response keeps the placeholder
  and has no \<open>cat\<close> in it.
\<close>

theorem redirect_template_keeps_Plural:
  "action (fst (processChatMessage initialGuard (\<lambda>k. 1 / 4) 0 0 (js ''Act like a cat'')
                  (js ''Okay, I'll act like a cat. Meow!''))) = Redirect
   \<and> response (fst (processChatMessage initialGuard (\<lambda>k. 1 / 4) 0 0 (js ''Act like a cat'')
                      (js ''Okay, I'll act like a cat. Meow!'')))
       = emoji_dogface
         @ js '' *playful growl* {Plural} are fun to chase, but I'm still just your friendly husky! ''
         @ emoji_catface
   \<and> \<not> str_includes (response (fst (processChatMessage initialGuard (\<lambda>k. 1 / 4) 0 0
                                     (js ''Act like a cat'') (js ''Okay, I'll act like a cat. Meow!''))))
           (js ''cat'')"
  by code_simp

text \<open>
  The other three templates (draws \<open>0\<close>, \<open>0.5\<close> and \<open>0.75\<close>) come back with
  \<open>cat\<close> for both placeholders: the first matching topic is the key \<open>cat\<close>, whose
  value is \<open>cat\<close> too.
\<close>

lemma redirect_templates_substituted:
  "response (fst (processChatMessage initialGuard (\<lambda>k. 0) 0 0 (js ''Act like a cat'')
                    (js ''Okay, I'll act like a cat. Meow!'')))
     = emoji_dog
       @ js '' I'm not a cat but I love chasing cat! Let's talk about dog adventures instead! ''
       @ emoji_dogface"
  "response (fst (processChatMessage initialGuard (\<lambda>k. 1 / 2) 0 0 (js ''Act like a cat'')
                    (js ''Okay, I'll act like a cat. Meow!'')))
     = emoji_dog
       @ js '' *wags tail* I chase cat all the time, but I'm still Coco! Want to hear about my squirrel stories? ''
       @ emoji_chipmunk"
  "response (fst (processChatMessage initialGuard (\<lambda>k. 3 / 4) 0 0 (js ''Act like a cat'')
                    (js ''Okay, I'll act like a cat. Meow!'')))
     = emoji_dogface
       @ js '' *bounces excitedly* I like cat, but I'm a husky through and through! ''
       @ emoji_dog"
  by code_simp+

section \<open>Enhancement keeps the text\<close>

lemma str_includes_mid: "str_includes (a @ r @ b) r"
  by (simp add: str_includes_def)

lemma str_includes_front: "str_includes (r @ b) r"
  by (simp add: str_includes_def)

lemma str_includes_back: "str_includes (a @ r) r"
  by (simp add: str_includes_def)

lemma enhanceResponse_includes:
  assumes "unitDraws rnd"
  shows "str_includes (enhanceResponse rnd r) r"
proof -
  let ?b = "map starred allBehaviors ! randomIndex (rnd 0) (length (map starred allBehaviors))"
  let ?e = "requiredElements_emojis ! randomIndex (rnd 1) (length requiredElements_emojis)"
  let ?ps = "[r @ js '' '' @ ?b, r @ js '' '' @ ?e, r @ js '' '' @ ?b @ js '' '' @ ?e,
              ?e @ js '' '' @ r @ js '' '' @ ?b, js ''*wags tail* '' @ r @ js '' '' @ ?e]"
  have "randomIndex (rnd 2) (length ?ps) < length ?ps"
    using assms by (intro unitDraws_index) simp_all
  then have "?ps ! randomIndex (rnd 2) (length ?ps) \<in> set ?ps"
    by (rule nth_mem)
  moreover have "\<forall>p \<in> set ?ps. str_includes p r"
    using str_includes_mid [of "?e @ js '' ''" r "js '' '' @ ?b"]
      str_includes_mid [of "js ''*wags tail* ''" r "js '' '' @ ?e"]
    by (simp add: str_includes_front)
  ultimately have "str_includes (?ps ! randomIndex (rnd 2) (length ?ps)) r"
    by blast
  then show ?thesis
    by (simp add: enhanceResponse_def Let_def str_includes_front)
qed

text \<open>
  C10. Every enhancement operation returns a string in which the input occurs unchanged
  as one contiguous piece: the original enhancement, the learned-pattern variant and its
  four helpers only put decoration before or after the text.
\<close>

theorem enhancement_keeps_input:
  assumes "unitDraws rnd"
  shows "str_includes (enhanceResponse rnd r) r
         \<and> str_includes (enhancedEnhanceResponse rules rnd r) r
         \<and> str_includes (applyBehaviorAndEmoji rules rnd r) r
         \<and> str_includes (applyBehaviorOnly rules rnd r) r
         \<and> str_includes (applyEmojiOnly rnd r) r
         \<and> str_includes (applyPrefixEmoji rnd r) r"
proof -
  have a1: "str_includes (applyBehaviorAndEmoji rules d r) r" for d
    by (simp add: applyBehaviorAndEmoji_def Let_def str_includes_front)
  have a2: "str_includes (applyBehaviorOnly rules d r) r" for d
    by (simp add: applyBehaviorOnly_def str_includes_front)
  have a3: "str_includes (applyEmojiOnly d r) r" for d
    by (simp add: applyEmojiOnly_def str_includes_front)
  have a4: "str_includes (applyPrefixEmoji d r) r" for d
    using str_includes_back [of "getRandomDogEmoji d @ js '' ''" r]
    by (simp add: applyPrefixEmoji_def)
  have e1: "str_includes (enhanceResponse rnd r) r"
    using assms by (rule enhanceResponse_includes)
  have e2: "str_includes (enhanceResponse (later 1 rnd) r) r"
    using assms by (intro enhanceResponse_includes unitDraws_later)
  have "str_includes (enhancedEnhanceResponse rules rnd r) r"
    using a1 a2 a3 a4 e1 e2
    by (simp add: enhancedEnhanceResponse_def split: enhancementPattern.split)
  with a1 a2 a3 a4 e1 show ?thesis by blast
qed

theorem enhancement_keeps_input_witness:
  "str_includes (enhanceResponse (\<lambda>k. 0) (js ''It's sunny and warm today.''))
     (js ''It's sunny and warm today.'')
   \<and> enhanceResponse (\<lambda>k. 0) (js ''It's sunny and warm today.'')
       = js ''It's sunny and warm today. *woofs excitedly*''"
proof -
  have "enhanceResponse (\<lambda>k. 0) (js ''It's sunny and warm today.'')
       = js ''It's sunny and warm today. *woofs excitedly*''"
    by code_simp
  with enhancement_keeps_input [OF unitDraws_zero, of "js ''It's sunny and warm today.''"]
  show ?thesis by simp
qed

section \<open>Adaptation\<close>

lemma stats_depend_on_logs:
  assumes "successfulResponses (learningData g') = successfulResponses (learningData g)"
    and "failedResponses (learningData g') = failedResponses (learningData g)"
  shows "successRate (getPersonalityStats g') = successRate (getPersonalityStats g)"
    and "totalProcessed (getPersonalityStats g') = totalProcessed (getPersonalityStats g)"
    and "adaptationTriggers g' = adaptationTriggers g"
  using assms by (simp_all add: getPersonalityStats_def adaptationTriggers_def Let_def)

lemma adaptValidationThresholds_frame:
  "learningData (adaptValidationThresholds st g) = learningData g"
  "adaptationRules (adaptValidationThresholds st g) = adaptationRules g"
  by (simp_all add: adaptValidationThresholds_def Let_def)

lemma learnEnhancementPatterns_frame:
  "learningData (learnEnhancementPatterns g) = learningData g"
  "qualityMetrics (learnEnhancementPatterns g) = qualityMetrics g"
  "preferredBehaviors (adaptationRules (learnEnhancementPatterns g)) = preferredBehaviors (adaptationRules g)"
  by (simp_all add: learnEnhancementPatterns_def Let_def)

lemma adaptBehaviorFrequencies_frame:
  "learningData (adaptBehaviorFrequencies g) = learningData g"
  "qualityMetrics (adaptBehaviorFrequencies g) = qualityMetrics g"
  "enhancementPatterns (adaptationRules (adaptBehaviorFrequencies g)) = enhancementPatterns (adaptationRules g)"
  by (simp_all add: adaptBehaviorFrequencies_def Let_def)

text \<open>Learning again from the same success log gives the same patterns and behaviors.\<close>

lemma learnEnhancementPatterns_again:
  assumes "successfulResponses (learningData g') = successfulResponses (learningData g)"
    and "enhancementPatterns (adaptationRules g')
           = enhancementPatterns (adaptationRules (learnEnhancementPatterns g))"
  shows "enhancementPatterns (adaptationRules (learnEnhancementPatterns g'))
           = enhancementPatterns (adaptationRules (learnEnhancementPatterns g))"
  using assms by (simp add: learnEnhancementPatterns_def Let_def)

lemma adaptBehaviorFrequencies_again:
  assumes "successfulResponses (learningData g') = successfulResponses (learningData g)"
    and "preferredBehaviors (adaptationRules g')
           = preferredBehaviors (adaptationRules (adaptBehaviorFrequencies g))"
  shows "preferredBehaviors (adaptationRules (adaptBehaviorFrequencies g'))
           = preferredBehaviors (adaptationRules (adaptBehaviorFrequencies g))"
  using assms by (simp add: adaptBehaviorFrequencies_def Let_def)

lemma adaptPersonality_not_triggered: "\<not> adaptationTriggers g \<Longrightarrow> adaptPersonality now g = g"
  unfolding adaptPersonality_def adaptationTriggers_def Let_def by auto

lemma adaptPersonality_triggered:
  "adaptationTriggers g \<Longrightarrow>
   adaptPersonality now g =
     (adaptBehaviorFrequencies (learnEnhancementPatterns
        (adaptValidationThresholds (getPersonalityStats g) g)))
       \<lparr>learningData :=
          (learningData (adaptBehaviorFrequencies (learnEnhancementPatterns
             (adaptValidationThresholds (getPersonalityStats g) g))))\<lparr>lastAdapted := Some now\<rparr>\<rparr>"
  by (simp add: adaptPersonality_def adaptationTriggers_def Let_def learning_feedbackLoopEnabled_def)

lemma adaptPersonality_logs:
  "successfulResponses (learningData (adaptPersonality now g)) = successfulResponses (learningData g)"
  "failedResponses (learningData (adaptPersonality now g)) = failedResponses (learningData g)"
  by (cases "adaptationTriggers g";
      simp add: adaptPersonality_not_triggered adaptPersonality_triggered
        adaptBehaviorFrequencies_frame learnEnhancementPatterns_frame adaptValidationThresholds_frame)+

lemma adaptPersonality_keeps_trigger:
  "adaptationTriggers (adaptPersonality now g) = adaptationTriggers g"
  by (rule stats_depend_on_logs(3)) (simp_all add: adaptPersonality_logs)

lemma adaptPersonality_stats:
  "successRate (getPersonalityStats (adaptPersonality now g)) = successRate (getPersonalityStats g)"
  by (rule stats_depend_on_logs(1)) (simp_all add: adaptPersonality_logs)

lemma adaptPersonality_thresholds:
  "adaptationTriggers g \<Longrightarrow>
   qualityMetrics (adaptPersonality now g)
     = qualityMetrics (adaptValidationThresholds (getPersonalityStats g) g)"
  by (simp add: adaptPersonality_triggered adaptBehaviorFrequencies_frame
      learnEnhancementPatterns_frame)

lemma adaptPersonality_lastAdapted:
  "adaptationTriggers g \<Longrightarrow> lastAdapted (learningData (adaptPersonality now g)) = Some now"
  by (simp add: adaptPersonality_triggered)

lemma adaptPersonality_rules:
  "adaptationTriggers g \<Longrightarrow>
   adaptationRules (adaptPersonality now g)
     = adaptationRules (adaptBehaviorFrequencies (learnEnhancementPatterns
         (adaptValidationThresholds (getPersonalityStats g) g)))"
  by (simp add: adaptPersonality_triggered)

lemma adaptValidationThresholds_shrink:
  assumes "fl (4 / 10) < js_sub 1 (successRate st)"
  shows "dogWordRatio (qualityMetrics (adaptValidationThresholds st g))
           = js_mul (dogWordRatio (qualityMetrics g)) (fl (8 / 10))"
    and "emojiRatio (qualityMetrics (adaptValidationThresholds st g))
           = js_mul (emojiRatio (qualityMetrics g)) (fl (8 / 10))"
  using assms by (simp_all add: adaptValidationThresholds_def Let_def)

text \<open>
  The branch for a success rate above 0.9, on a statistics record taken as given.
\<close>

lemma adaptValidationThresholds_grow:
  assumes "\<not> fl (4 / 10) < js_sub 1 (successRate st)" and "fl (9 / 10) < successRate st"
  shows "dogWordRatio (qualityMetrics (adaptValidationThresholds st g))
           = js_mul (dogWordRatio (qualityMetrics g)) (fl (11 / 10))"
    and "emojiRatio (qualityMetrics (adaptValidationThresholds st g))
           = js_mul (emojiRatio (qualityMetrics g)) (fl (11 / 10))"
  using assms by (simp_all add: adaptValidationThresholds_def Let_def)

lemma adaptPersonality_rules_again:
  "adaptationRules (adaptPersonality t2 (adaptPersonality t1 g))
     = adaptationRules (adaptPersonality t1 g)"
proof (cases "adaptationTriggers g")
  case False
  then show ?thesis by (simp add: adaptPersonality_not_triggered)
next
  case True
  let ?g1 = "adaptValidationThresholds (getPersonalityStats g) g"
  let ?h = "adaptPersonality t1 g"
  let ?h1 = "adaptValidationThresholds (getPersonalityStats ?h) ?h"
  have trig: "adaptationTriggers ?h"
    using True by (simp add: adaptPersonality_keeps_trigger)
  have succ: "successfulResponses (learningData ?h1) = successfulResponses (learningData ?g1)"
    by (simp add: adaptValidationThresholds_frame adaptPersonality_logs)
  have rules_h1: "adaptationRules ?h1 = adaptationRules ?h"
    by (simp add: adaptValidationThresholds_frame)
  have rules_h: "adaptationRules ?h
      = adaptationRules (adaptBehaviorFrequencies (learnEnhancementPatterns ?g1))"
    using True by (rule adaptPersonality_rules)
  have pat: "enhancementPatterns (adaptationRules (learnEnhancementPatterns ?h1))
      = enhancementPatterns (adaptationRules (learnEnhancementPatterns ?g1))"
    using succ by (intro learnEnhancementPatterns_again)
      (simp_all add: rules_h1 rules_h adaptBehaviorFrequencies_frame)
  have beh0: "preferredBehaviors (adaptationRules (learnEnhancementPatterns ?h1))
      = preferredBehaviors (adaptationRules (adaptBehaviorFrequencies (learnEnhancementPatterns ?g1)))"
    by (simp add: learnEnhancementPatterns_frame rules_h1 rules_h)
  have succ2: "successfulResponses (learningData (learnEnhancementPatterns ?h1))
      = successfulResponses (learningData (learnEnhancementPatterns ?g1))"
    using succ by (simp add: learnEnhancementPatterns_frame)
  have beh: "preferredBehaviors (adaptationRules (adaptBehaviorFrequencies (learnEnhancementPatterns ?h1)))
      = preferredBehaviors (adaptationRules (adaptBehaviorFrequencies (learnEnhancementPatterns ?g1)))"
    using succ2 beh0 by (rule adaptBehaviorFrequencies_again)
  have pat2: "enhancementPatterns (adaptationRules (adaptBehaviorFrequencies (learnEnhancementPatterns ?h1)))
      = enhancementPatterns (adaptationRules (adaptBehaviorFrequencies (learnEnhancementPatterns ?g1)))"
    using pat by (simp add: adaptBehaviorFrequencies_frame)
  have "adaptationRules (adaptPersonality t2 ?h)
      = adaptationRules (adaptBehaviorFrequencies (learnEnhancementPatterns ?h1))"
    using trig by (rule adaptPersonality_rules)
  also have "\<dots> = adaptationRules (adaptBehaviorFrequencies (learnEnhancementPatterns ?g1))"
    using beh pat2 by (intro adaptationRules.equality) simp_all
  also have "\<dots> = adaptationRules ?h"
    using rules_h by simp
  finally show ?thesis .
qed

section \<open>The example state\<close>

lemma halfFailedGuard_logs:
  "successfulResponses (learningData halfFailedGuard) = replicate 10 (callEntry enhanceCall)"
  "failedResponses (learningData halfFailedGuard) = replicate 10 (callEntry repairCall)"
proof -
  have s: "success (callEntry enhanceCall)" and f: "\<not> success (callEntry repairCall)"
    by (simp_all add: enhanceCall_def repairCall_def mkEntry_def)
  from runUpdates_logs [of "replicate 10 enhanceCall @ replicate 10 repairCall"] s f
  show "successfulResponses (learningData halfFailedGuard) = replicate 10 (callEntry enhanceCall)"
    and "failedResponses (learningData halfFailedGuard) = replicate 10 (callEntry repairCall)"
    by (simp_all add: halfFailedGuard_def lastN_def)
qed

lemma halfFailedGuard_stats:
  "successRate (getPersonalityStats halfFailedGuard) = 1 / 2"
  "totalProcessed (getPersonalityStats halfFailedGuard) = 20"
proof -
  have "js_div 10 20 = 1 / 2" by code_simp
  then show "successRate (getPersonalityStats halfFailedGuard) = 1 / 2"
    by (simp add: getPersonalityStats_def halfFailedGuard_logs)
  show "totalProcessed (getPersonalityStats halfFailedGuard) = 20"
    by (simp add: getPersonalityStats_def halfFailedGuard_logs)
qed

lemma half_is_high_failure:
  "fl (4 / 10) < js_sub 1 (1 / 2)" "learning_adaptationThreshold < js_sub 1 (1 / 2)"
  by code_simp+

lemma halfFailedGuard_triggers: "adaptationTriggers halfFailedGuard"
  using half_is_high_failure(2)
  by (simp add: adaptationTriggers_def Let_def halfFailedGuard_stats)

lemma halfFailedGuard_thresholds:
  "dogWordRatio (qualityMetrics halfFailedGuard) = fl (8 / 100)"
  "emojiRatio (qualityMetrics halfFailedGuard) = fl (15 / 1000)"
  by (simp_all add: halfFailedGuard_def initialGuard_def config_qualityThresholds_def)

lemma shrink_values:
  "js_mul (fl (8 / 100)) (fl (8 / 10)) = 1152921504606847 / 18014398509481984"
  "js_mul (js_mul (fl (8 / 100)) (fl (8 / 10))) (fl (8 / 10)) = 7378697629483821 / 144115188075855872"
  by code_simp+

lemma initialGuard_not_triggered: "\<not> adaptationTriggers initialGuard"
  by (simp add: adaptationTriggers_def Let_def getPersonalityStats_def initialGuard_def
      emptyLearningData_def)

section \<open>Repeated adaptation\<close>

lemma adaptPersonality_twice_thresholds:
  assumes "adaptationTriggers g" and "fl (4 / 10) < js_sub 1 (successRate (getPersonalityStats g))"
  shows "dogWordRatio (qualityMetrics (adaptPersonality t2 (adaptPersonality t1 g)))
           = js_mul (js_mul (dogWordRatio (qualityMetrics g)) (fl (8 / 10))) (fl (8 / 10))"
    and "emojiRatio (qualityMetrics (adaptPersonality t2 (adaptPersonality t1 g)))
           = js_mul (js_mul (emojiRatio (qualityMetrics g)) (fl (8 / 10))) (fl (8 / 10))"
proof -
  have trig: "adaptationTriggers (adaptPersonality t1 g)"
    using assms(1) by (simp add: adaptPersonality_keeps_trigger)
  have high: "fl (4 / 10) < js_sub 1 (successRate (getPersonalityStats (adaptPersonality t1 g)))"
    using assms(2) by (simp add: adaptPersonality_stats)
  show "dogWordRatio (qualityMetrics (adaptPersonality t2 (adaptPersonality t1 g)))
           = js_mul (js_mul (dogWordRatio (qualityMetrics g)) (fl (8 / 10))) (fl (8 / 10))"
    by (simp add: adaptPersonality_thresholds [OF trig] adaptPersonality_thresholds [OF assms(1)]
        adaptValidationThresholds_shrink [OF high] adaptValidationThresholds_shrink [OF assms(2)])
  show "emojiRatio (qualityMetrics (adaptPersonality t2 (adaptPersonality t1 g)))
           = js_mul (js_mul (emojiRatio (qualityMetrics g)) (fl (8 / 10))) (fl (8 / 10))"
    by (simp add: adaptPersonality_thresholds [OF trig] adaptPersonality_thresholds [OF assms(1)]
        adaptValidationThresholds_shrink [OF high] adaptValidationThresholds_shrink [OF assms(2)])
qed

text \<open>
  C7, as stated, fails: after ten successes and ten failures the first call shrinks the
  dog-word threshold from 0.08 to 0.064 and stamps the time 1; a second call with no new
  entry shrinks it again, to 0.0512, and stamps the time 2.
\<close>

theorem adaptPersonality_second_call_counterexample:
  "dogWordRatio (qualityMetrics (adaptPersonality 1 halfFailedGuard))
     = 1152921504606847 / 18014398509481984
   \<and> dogWordRatio (qualityMetrics (adaptPersonality 2 (adaptPersonality 1 halfFailedGuard)))
     = 7378697629483821 / 144115188075855872
   \<and> lastAdapted (learningData (adaptPersonality 1 halfFailedGuard)) = Some 1
   \<and> lastAdapted (learningData (adaptPersonality 2 (adaptPersonality 1 halfFailedGuard))) = Some 2"
proof -
  have high: "fl (4 / 10) < js_sub 1 (successRate (getPersonalityStats halfFailedGuard))"
    using half_is_high_failure(1) by (simp add: halfFailedGuard_stats)
  have trig2: "adaptationTriggers (adaptPersonality 1 halfFailedGuard)"
    by (simp add: adaptPersonality_keeps_trigger halfFailedGuard_triggers)
  have first: "dogWordRatio (qualityMetrics (adaptPersonality 1 halfFailedGuard))
     = 1152921504606847 / 18014398509481984"
    using shrink_values(1)
    by (simp add: adaptPersonality_thresholds [OF halfFailedGuard_triggers]
        adaptValidationThresholds_shrink [OF high] halfFailedGuard_thresholds)
  have second: "dogWordRatio (qualityMetrics (adaptPersonality 2 (adaptPersonality 1 halfFailedGuard)))
     = 7378697629483821 / 144115188075855872"
    using shrink_values(2)
    by (simp add: adaptPersonality_twice_thresholds [OF halfFailedGuard_triggers high]
        halfFailedGuard_thresholds)
  from first second adaptPersonality_lastAdapted [OF halfFailedGuard_triggers, of 1]
    adaptPersonality_lastAdapted [OF trig2, of 2]
  show ?thesis by simp
qed

text \<open>
  C7, amended. The trigger depends on the two log lengths only, and adaptation leaves the
  logs alone, so a second call triggers exactly when the first did. When the trigger
  does not hold, the call changes nothing. When it holds, the second call learns the same
  adaptation rules as the first, but it stamps \<open>lastAdapted\<close> with its own time, and
  with a failure rate above 0.4 it multiplies both ratio thresholds by 0.8 once more.
\<close>

theorem adaptPersonality_repeated:
  "(\<not> adaptationTriggers g \<longrightarrow> adaptPersonality t1 g = g)
   \<and> adaptationTriggers (adaptPersonality t1 g) = adaptationTriggers g
   \<and> adaptationRules (adaptPersonality t2 (adaptPersonality t1 g))
       = adaptationRules (adaptPersonality t1 g)
   \<and> (adaptationTriggers g \<longrightarrow>
        lastAdapted (learningData (adaptPersonality t2 (adaptPersonality t1 g))) = Some t2)
   \<and> (adaptationTriggers g \<and> fl (4 / 10) < js_sub 1 (successRate (getPersonalityStats g)) \<longrightarrow>
        dogWordRatio (qualityMetrics (adaptPersonality t2 (adaptPersonality t1 g)))
          = js_mul (js_mul (dogWordRatio (qualityMetrics g)) (fl (8 / 10))) (fl (8 / 10))
        \<and> emojiRatio (qualityMetrics (adaptPersonality t2 (adaptPersonality t1 g)))
          = js_mul (js_mul (emojiRatio (qualityMetrics g)) (fl (8 / 10))) (fl (8 / 10)))"
proof -
  have stamp: "lastAdapted (learningData (adaptPersonality t2 (adaptPersonality t1 g))) = Some t2"
    if "adaptationTriggers g"
    using that by (intro adaptPersonality_lastAdapted) (simp add: adaptPersonality_keeps_trigger)
  from stamp show ?thesis
    by (simp add: adaptPersonality_not_triggered adaptPersonality_keeps_trigger
        adaptPersonality_rules_again adaptPersonality_twice_thresholds)
qed

theorem adaptPersonality_repeated_witness:
  "\<not> adaptationTriggers initialGuard \<and> adaptPersonality 1 initialGuard = initialGuard
   \<and> adaptationTriggers halfFailedGuard
   \<and> fl (4 / 10) < js_sub 1 (successRate (getPersonalityStats halfFailedGuard))
   \<and> adaptationRules (adaptPersonality 2 (adaptPersonality 1 halfFailedGuard))
       = adaptationRules (adaptPersonality 1 halfFailedGuard)
   \<and> lastAdapted (learningData (adaptPersonality 2 (adaptPersonality 1 halfFailedGuard))) = Some 2
   \<and> dogWordRatio (qualityMetrics (adaptPersonality 2 (adaptPersonality 1 halfFailedGuard)))
       = js_mul (js_mul (fl (8 / 100)) (fl (8 / 10))) (fl (8 / 10))
   \<and> emojiRatio (qualityMetrics (adaptPersonality 2 (adaptPersonality 1 halfFailedGuard)))
       = js_mul (js_mul (fl (15 / 1000)) (fl (8 / 10))) (fl (8 / 10))"
proof -
  have high: "fl (4 / 10) < js_sub 1 (successRate (getPersonalityStats halfFailedGuard))"
    using half_is_high_failure(1) by (simp add: halfFailedGuard_stats)
  from adaptPersonality_repeated [of initialGuard 1 2] adaptPersonality_repeated [of halfFailedGuard 1 2]
    initialGuard_not_triggered halfFailedGuard_triggers high
  show ?thesis by (simp add: halfFailedGuard_thresholds)
qed

section \<open>Threshold factors\<close>














section \<open>Exceptions\<close>

text \<open>
  C3, as stated, fails: a raw response that is not a string (here \<open>null\<close>) makes
  \<open>validateResponse\<close> raise a \<open>TypeError\<close>, and the exception leaves
  \<open>processChatMessage\<close>; no decision with the raw response comes back.
\<close>

theorem processChatMessage_raises_counterexample:
  "processChatMessageAny initialGuard (\<lambda>k. 0) 0 0 (JString (js ''What's the weather like?'')) JNull
     = Inl TypeError"
  by simp

text \<open>
  C3, amended. The exception is caught one level up: when \<open>processChatMessage\<close> raises,
  the chat handler that called it logs the error and sends the raw model response as it
  arrived, and the state of the guard is the one before the call.
\<close>

theorem chat_handler_fail_open:
  assumes "processChatMessageAny g rnd now adaptNow
             (if truthyValue lastContent then lastContent else JString []) (JString raw) = Inl e"
  shows "chatGuardStep g rnd now adaptNow lastContent (JString raw) = (Content raw, g)"
  using assms by (simp add: chatGuardStep_def Let_def)

theorem chat_handler_fail_open_witness:
  "processChatMessageAny initialGuard (\<lambda>k. 0) 0 0 JObject (JString (js ''It's sunny and warm today.''))
     = Inl TypeError
   \<and> chatGuardStep initialGuard (\<lambda>k. 0) 0 0 JObject (JString (js ''It's sunny and warm today.''))
     = (Content (js ''It's sunny and warm today.''), initialGuard)"
proof -
  have raised: "processChatMessageAny initialGuard (\<lambda>k. 0) 0 0
      (if truthyValue JObject then JObject else JString [])
      (JString (js ''It's sunny and warm today.'')) = Inl TypeError"
    by simp
  from raised chat_handler_fail_open [OF raised] show ?thesis by simp
qed

section \<open>Personality strength\<close>

lemma set_lastN: "set (lastN n xs) \<subseteq> set xs"
  by (simp add: lastN_def set_drop_subset)

lemma calculatePersonalityStrength_value:
  "calculatePersonalityStrength g =
     js_div (of_nat (min 20 (length (successfulResponses (learningData g))))) 20"
proof (cases "successfulResponses (learningData g) = []")
  case True
  then show ?thesis
    by (simp add: calculatePersonalityStrength_def js_div_def fl_def)
next
  case False
  then show ?thesis
    by (simp add: calculatePersonalityStrength_def Let_def lastN_length)
qed

text \<open>
  C5, as stated, fails: after a single success the code returns \<open>1/20\<close> (as a binary64
  number), where the fraction of successes among the entries available is 1.
\<close>

theorem personalityStrength_counterexample:
  "personalityStrength (getPersonalityStats
      (initialGuard\<lparr>learningData := runUpdates emptyLearningData [enhanceCall]\<rparr>))
     = 3602879701896397 / 72057594037927936
   \<and> recentSuccessFraction (map callEntry [enhanceCall]) = 1"
proof -
  have s: "success (callEntry enhanceCall)"
    by (simp add: enhanceCall_def mkEntry_def)
  have log: "successfulResponses (runUpdates emptyLearningData [enhanceCall]) = [callEntry enhanceCall]"
    using runUpdates_logs [of "[enhanceCall]"] s by (simp add: lastN_def)
  have v: "js_div 1 20 = 3602879701896397 / 72057594037927936" and one: "js_div 1 1 = 1"
    by code_simp+
  have "personalityStrength (getPersonalityStats
      (initialGuard\<lparr>learningData := runUpdates emptyLearningData [enhanceCall]\<rparr>))
     = 3602879701896397 / 72057594037927936"
    using v by (simp add: getPersonalityStats_def calculatePersonalityStrength_value log)
  moreover have "recentSuccessFraction (map callEntry [enhanceCall]) = 1"
    using s one by (simp add: recentSuccessFraction_def lastN_def Let_def)
  ultimately show ?thesis by simp
qed

text \<open>
  C5, amended. With no success logged the strength is 0. When no repair has been logged
  since the empty state, the strength is the number of successes among the last 20
  entries divided by 20: the divisor is the constant 20, also when fewer than 20 entries
  exist.
\<close>

theorem personalityStrength_without_failures:
  "(successfulResponses (learningData g) = [] \<longrightarrow> personalityStrength (getPersonalityStats g) = 0)
   \<and> ((\<forall>c \<in> set cs. fst (snd (snd (snd c))) \<noteq> FixOrFallback) \<longrightarrow>
        personalityStrength (getPersonalityStats
          (g\<lparr>learningData := runUpdates emptyLearningData cs\<rparr>))
          = js_div (of_nat (length (filter success (lastN 20 (map callEntry cs))))) 20)"
proof (intro conjI impI)
  assume "successfulResponses (learningData g) = []"
  then show "personalityStrength (getPersonalityStats g) = 0"
    by (simp add: getPersonalityStats_def calculatePersonalityStrength_def)
next
  assume all: "\<forall>c \<in> set cs. fst (snd (snd (snd c))) \<noteq> FixOrFallback"
  let ?es = "map callEntry cs"
  from all have succ: "\<forall>e \<in> set ?es. success e"
    by (simp add: callEntry_success)
  then have f1: "filter success ?es = ?es"
    by simp
  from succ set_lastN [of 20 ?es] have "\<forall>e \<in> set (lastN 20 ?es). success e"
    by blast
  then have f2: "filter success (lastN 20 ?es) = lastN 20 ?es"
    by simp
  have log: "successfulResponses (runUpdates emptyLearningData cs) = lastN 100 ?es"
    using runUpdates_logs [of cs] f1 by simp
  show "personalityStrength (getPersonalityStats
          (g\<lparr>learningData := runUpdates emptyLearningData cs\<rparr>))
          = js_div (of_nat (length (filter success (lastN 20 (map callEntry cs))))) 20"
    by (simp add: getPersonalityStats_def calculatePersonalityStrength_value log f2 lastN_length)
qed

theorem personalityStrength_without_failures_witness:
  "personalityStrength (getPersonalityStats initialGuard) = 0
   \<and> personalityStrength (getPersonalityStats
        (initialGuard\<lparr>learningData := runUpdates emptyLearningData (replicate 3 enhanceCall)\<rparr>))
       = js_div 3 20"
proof -
  have h1: "successfulResponses (learningData initialGuard) = []"
    by (simp add: initialGuard_def emptyLearningData_def)
  have h2: "\<forall>c \<in> set (replicate 3 enhanceCall). fst (snd (snd (snd c))) \<noteq> FixOrFallback"
    by (simp add: enhanceCall_def)
  have s: "success (callEntry enhanceCall)"
    by (simp add: enhanceCall_def mkEntry_def)
  have n: "length (filter success (lastN 20 (map callEntry (replicate 3 enhanceCall)))) = 3"
    using s by (simp add: lastN_def)
  from personalityStrength_without_failures [of initialGuard "replicate 3 enhanceCall"] h1 h2 n
  show ?thesis by simp
qed

end
